theory Spec2Isabelle
  imports Complex_Main
begin

section \<open>JavaScript values used by the shader wrapper and the texture atlas\<close>

text \<open>
  Exceptions are values. \<open>TypeError\<close> is what the engine raises when a property is read
  from \<open>null\<close> or \<open>undefined\<close>; \<open>Error msg\<close> is a \<open>throw new Error(msg)\<close> of the source.
\<close>

datatype js_error = TypeError | Error string

text \<open>
  A plain object (\<open>{}\<close>) inherits from \<open>Object.prototype\<close>: reading \<open>obj[name]\<close> finds
  the object's own property, and otherwise the property of that name of
  \<open>Object.prototype\<close>, none of which is \<open>undefined\<close>. These are the names the language
  defines there. All but \<open>__proto__\<close> are methods, which an assignment \<open>obj[name] = v\<close>
  shadows by a new own property of \<open>obj\<close>; \<open>__proto__\<close> is an accessor, which reads and
  replaces the prototype of the object it is used on.
\<close>

definition object_prototype_names :: "string list" where
  "object_prototype_names =
     [''constructor'', ''hasOwnProperty'', ''isPrototypeOf'', ''propertyIsEnumerable'',
      ''toLocaleString'', ''toString'', ''valueOf'', ''__proto__'',
      ''__defineGetter__'', ''__defineSetter__'', ''__lookupGetter__'', ''__lookupSetter__'']"

definition inherited :: "string \<Rightarrow> bool" where
  "inherited nm = (nm \<in> set object_prototype_names)"

text \<open>
  The values handed to \<open>GLShader.setUniform\<close>: \<open>undefined\<close>, \<open>null\<close>, a number, a numeric
  array (a \<open>Float32Array\<close> or a plain array) and an object. An object is described by what
  the source asks of it: \<open>JObject (Some a)\<close> has a \<open>toArray\<close> method, which returns \<open>a\<close>;
  \<open>JObject None\<close> has none.
\<close>

datatype jsvalue =
    JUndefined
  | JNull
  | JNumber rat
  | JArray "rat list"
  | JObject "jsvalue option"

text \<open>\<open>typeof value === "object"\<close>: true of \<open>null\<close>, of arrays and of objects.\<close>

fun typeof_object :: "jsvalue \<Rightarrow> bool" where
  "typeof_object JUndefined = False"
| "typeof_object JNull = True"
| "typeof_object (JNumber _) = False"
| "typeof_object (JArray _) = True"
| "typeof_object (JObject _) = True"

text \<open>
  Reading \<open>value.toArray\<close> from a value whose \<open>typeof\<close> is \<open>"object"\<close>: \<open>null\<close> has no
  properties and the read raises; an array has no such method; an object has it or not.
  The result is the method's return value when the property is a function.
\<close>

fun get_toArray :: "jsvalue \<Rightarrow> js_error + jsvalue option" where
  "get_toArray JNull = Inl TypeError"
| "get_toArray JUndefined = Inl TypeError"
| "get_toArray (JObject m) = Inr m"
| "get_toArray (JNumber _) = Inr None"
| "get_toArray (JArray _) = Inr None"

section \<open>GLShader (src/video/webgl/glshader.js)\<close>

subsection \<open>The attribute table\<close>

text \<open>
  Modelled from the spec: the attribute table built by \<open>extractAttributes\<close>
  (utils/attributes.js, not among the sources) is "a mapping attribute-name \<rightarrow> location",
  held in a plain object: its own properties are the attribute names, each with its
  location (a \<open>GLint\<close>).
\<close>

type_synonym attribute_table = "string \<rightharpoonup> int"

text \<open>
  What \<open>getAttribLocation\<close> returns: a number, or the value that the table inherits
  from \<open>Object.prototype\<close> under the name asked for (a function, or for \<open>__proto__\<close> the
  prototype itself).
\<close>

datatype attribute_value = Location int | Inherited_value

subsection \<open>The uniform table\<close>

text \<open>
  Modelled from the spec: the uniform table built by \<open>extractUniforms\<close>
  (utils/uniforms.js, not among the sources) is "a mapping uniform-name \<rightarrow> accessor",
  held in a plain object. Reading a uniform's property yields its location, which is
  never \<open>undefined\<close>; writing it hands the value to the accessor, which passes it to the
  graphics API and may raise (\<open>setter\<close> gives the error, if any). A uniform records its
  location and the value last accepted.
\<close>

record uniform =
  location :: nat
  assigned :: jsvalue
  setter :: "jsvalue \<Rightarrow> js_error option"

text \<open>
  The prototype of the table object: \<open>Object.prototype\<close> as the table is built, and after
  an assignment to \<open>__proto__\<close> the value assigned, \<open>null\<close> (no prototype) or an object.
\<close>

datatype prototype = Object_prototype | No_prototype | Foreign_prototype jsvalue

text \<open>
  The table object: its uniforms (own accessor properties), the own data properties that
  an assignment under any other name creates, and its prototype.
\<close>

record uniform_table =
  accessors :: "string \<rightharpoonup> uniform"
  properties :: "string \<rightharpoonup> jsvalue"
  prototype :: prototype

text \<open>
  What a name does that is not an own property of the table, once an object \<open>p\<close> has
  been made its prototype, depends on \<open>p\<close>, of which the sources say nothing: it is a
  parameter. \<open>foreign_defined p name\<close> tells whether \<open>typeof p[name]\<close> is other than
  \<open>"undefined"\<close>; \<open>foreign_write p name v\<close> tells what the assignment \<open>table[name] = v\<close>
  does: create an own data property of the table, raise, do nothing, or replace the
  prototype again.
\<close>

datatype write_kind = Own_data | Raise js_error | Ignore | Reprototype

record engine =
  foreign_defined :: "jsvalue \<Rightarrow> string \<Rightarrow> bool"
  foreign_write :: "jsvalue \<Rightarrow> string \<Rightarrow> jsvalue \<Rightarrow> write_kind"

text \<open>
  Whether the table inherits, under \<open>name\<close>, a property that is not \<open>undefined\<close>.
\<close>

definition inherits :: "engine \<Rightarrow> uniform_table \<Rightarrow> string \<Rightarrow> bool" where
  "inherits eng t nm =
     (case prototype t of
        Object_prototype \<Rightarrow> inherited nm
      | No_prototype \<Rightarrow> False
      | Foreign_prototype p \<Rightarrow> foreign_defined eng p nm)"

text \<open>\<open>typeof uniforms[name] !== "undefined"\<close>.\<close>

definition uniform_defined :: "engine \<Rightarrow> uniform_table \<Rightarrow> string \<Rightarrow> bool" where
  "uniform_defined eng t nm =
     (case accessors t nm of
        Some u \<Rightarrow> True
      | None \<Rightarrow>
          (case properties t nm of
             Some v \<Rightarrow> v \<noteq> JUndefined
           | None \<Rightarrow> inherits eng t nm))"

text \<open>
  What the accessor \<open>__proto__\<close> of \<open>Object.prototype\<close> does with the value assigned:
  \<open>null\<close> and objects become the prototype; any other value is ignored.
\<close>

fun new_prototype :: "jsvalue \<Rightarrow> prototype option" where
  "new_prototype JUndefined = None"
| "new_prototype (JNumber n) = None"
| "new_prototype JNull = Some No_prototype"
| "new_prototype (JArray a) = Some (Foreign_prototype (JArray a))"
| "new_prototype (JObject m) = Some (Foreign_prototype (JObject m))"

definition set_prototype :: "uniform_table \<Rightarrow> jsvalue \<Rightarrow> uniform_table" where
  "set_prototype t v =
     (case new_prototype v of
        None \<Rightarrow> t
      | Some p \<Rightarrow> t\<lparr>prototype := p\<rparr>)"

text \<open>
  \<open>uniforms[name] = v\<close>: a uniform's accessor takes the value or raises; an own data
  property is overwritten; under any other name the table gets a new own data property,
  unless the name is inherited as an accessor: \<open>__proto__\<close> of \<open>Object.prototype\<close>
  replaces the prototype.
\<close>

definition uniform_assign ::
  "engine \<Rightarrow> uniform_table \<Rightarrow> string \<Rightarrow> jsvalue \<Rightarrow> js_error + uniform_table" where
  "uniform_assign eng t nm v =
     (case accessors t nm of
        Some u \<Rightarrow>
          (case setter u v of
             Some err \<Rightarrow> Inl err
           | None \<Rightarrow> Inr (t\<lparr>accessors := (accessors t)(nm \<mapsto> u\<lparr>assigned := v\<rparr>)\<rparr>))
      | None \<Rightarrow>
          if properties t nm \<noteq> None then Inr (t\<lparr>properties := (properties t)(nm \<mapsto> v)\<rparr>)
          else
            (case prototype t of
               Object_prototype \<Rightarrow>
                 if nm = ''__proto__'' then Inr (set_prototype t v)
                 else Inr (t\<lparr>properties := (properties t)(nm \<mapsto> v)\<rparr>)
             | No_prototype \<Rightarrow> Inr (t\<lparr>properties := (properties t)(nm \<mapsto> v)\<rparr>)
             | Foreign_prototype p \<Rightarrow>
                 (case foreign_write eng p nm v of
                    Own_data \<Rightarrow> Inr (t\<lparr>properties := (properties t)(nm \<mapsto> v)\<rparr>)
                  | Raise err \<Rightarrow> Inl err
                  | Ignore \<Rightarrow> Inr t
                  | Reprototype \<Rightarrow> Inr (set_prototype t v))))"

subsection \<open>The shader\<close>

text \<open>
  The fields of a \<open>GLShader\<close>. \<open>destroy\<close> sets four of them to \<open>null\<close>, hence the options.
  \<open>deleted\<close> records that \<open>gl.deleteProgram\<close> was called on the program.
\<close>

record glshader =
  vertex :: "string option"
  fragment :: "string option"
  attributes :: "attribute_table option"
  program :: nat
  deleted :: bool
  uniforms :: "uniform_table option"

text \<open>
  \<open>getAttribLocation(name)\<close>: \<open>this.attributes[name]\<close> raises when \<open>this.attributes\<close> is
  \<open>null\<close>; otherwise the value read, own or inherited, is returned unless it is
  \<open>undefined\<close>, and then \<open>-1\<close> is.
\<close>

definition getAttribLocation :: "glshader \<Rightarrow> string \<Rightarrow> js_error + attribute_value" where
  "getAttribLocation this name =
     (case attributes this of
        None \<Rightarrow> Inl TypeError
      | Some tbl \<Rightarrow>
          (case tbl name of
             Some attr \<Rightarrow> Inr (Location attr)
           | None \<Rightarrow>
               if inherited name then Inr Inherited_value
               else Inr (Location (- 1))))"

text \<open>
  \<open>"" + this\<close> for a \<open>GLShader\<close>: the class defines no \<open>toString\<close> and extends nothing,
  so the conversion is the one of \<open>Object.prototype\<close>.
\<close>

definition shader_to_string :: "glshader \<Rightarrow> string" where
  "shader_to_string this = ''[object Object]''"

text \<open>
  \<open>setUniform(name, value)\<close>. Evaluation order is the source's: the table is read first
  (which raises when \<open>this.uniforms\<close> is \<open>null\<close>), then \<open>typeof value\<close>, then
  \<open>value.toArray\<close>, then the assignment.
\<close>

definition setUniform ::
  "engine \<Rightarrow> glshader \<Rightarrow> string \<Rightarrow> jsvalue \<Rightarrow> js_error + glshader" where
  "setUniform eng this name v =
     (case uniforms this of
        None \<Rightarrow> Inl TypeError
      | Some t \<Rightarrow>
          if uniform_defined eng t name then
            (case (if typeof_object v then
                     (case get_toArray v of
                        Inl e \<Rightarrow> Inl e
                      | Inr (Some a) \<Rightarrow> uniform_assign eng t name a
                      | Inr None \<Rightarrow> uniform_assign eng t name v)
                   else uniform_assign eng t name v) of
               Inl e \<Rightarrow> Inl e
             | Inr t1 \<Rightarrow> Inr (this\<lparr>uniforms := Some t1\<rparr>))
          else
            Inl (Error (''undefined ('' @ name @ '') uniform for shader ''
                        @ shader_to_string this)))"

text \<open>\<open>destroy()\<close>: drops both tables and both sources, and deletes the program.\<close>

definition destroy :: "glshader \<Rightarrow> glshader" where
  "destroy this =
     this\<lparr>uniforms := None, attributes := None, deleted := True,
          vertex := None, fragment := None\<rparr>"

text \<open>
  The value that \<open>setUniform\<close> assigns: the result of \<open>toArray\<close> for a value that
  converts, else the value.
\<close>

definition uniform_value :: "jsvalue \<Rightarrow> jsvalue" where
  "uniform_value v = (case v of JObject (Some a) \<Rightarrow> a | _ \<Rightarrow> v)"

text \<open>
  Modelled from the spec: the accessor of a vector uniform (utils/uniforms.js, not among
  the sources) is given the value and hands it to the graphics API. The one below looks
  at the \<open>length\<close> of the value first, so that \<open>undefined\<close> and \<open>null\<close> raise a
  \<open>TypeError\<close>, and takes every other value.
\<close>

definition vector_setter :: "jsvalue \<Rightarrow> js_error option" where
  "vector_setter v = (if v = JUndefined \<or> v = JNull then Some TypeError else None)"

text \<open>
  Two shaders that differ in their program only, each with one attribute and one
  uniform, and an \<open>engine\<close> for which a foreign prototype has no properties.
\<close>

definition color_uniform :: uniform where
  "color_uniform = \<lparr>location = 0, assigned = JUndefined, setter = vector_setter\<rparr>"

definition color_table :: uniform_table where
  "color_table =
     \<lparr>accessors = [''uColor'' \<mapsto> color_uniform], properties = Map.empty,
      prototype = Object_prototype\<rparr>"

definition quad_shader :: glshader where
  "quad_shader =
     \<lparr>vertex = Some ''attribute vec2 aVertex;'', fragment = Some ''uniform vec4 uColor;'',
      attributes = Some [''aVertex'' \<mapsto> 0], program = 1, deleted = False,
      uniforms = Some color_table\<rparr>"

definition line_shader :: glshader where
  "line_shader = quad_shader\<lparr>program := 2\<rparr>"

definition bare_engine :: engine where
  "bare_engine =
     \<lparr>foreign_defined = (\<lambda>p nm. False), foreign_write = (\<lambda>p nm v. Own_data)\<rparr>"

section \<open>Numbers and strings of the texture atlas\<close>

text \<open>
  A JavaScript number is a finite value, \<open>NaN\<close> or an infinity. Pixel quantities
  (offsets, sizes, counts) are whole numbers, \<open>int jsnum\<close>; quotients (texture
  coordinates, anchor points) are exact rationals, \<open>rat jsnum\<close>. Finite values are kept
  exact: the rounding of binary64 arithmetic and of a \<open>Float32Array\<close> store, and the sign
  of zero, are not represented.
\<close>

datatype 'a jsnum = Num 'a | NaN | PosInf | NegInf

fun of_px :: "int jsnum \<Rightarrow> rat jsnum" where
  "of_px (Num i) = Num (of_int i)"
| "of_px NaN = NaN"
| "of_px PosInf = PosInf"
| "of_px NegInf = NegInf"

text \<open>\<open>a + b\<close> on pixel quantities.\<close>

fun js_add :: "int jsnum \<Rightarrow> int jsnum \<Rightarrow> int jsnum" where
  "js_add (Num a) (Num b) = Num (a + b)"
| "js_add NaN _ = NaN"
| "js_add _ NaN = NaN"
| "js_add PosInf NegInf = NaN"
| "js_add NegInf PosInf = NaN"
| "js_add PosInf _ = PosInf"
| "js_add _ PosInf = PosInf"
| "js_add NegInf _ = NegInf"
| "js_add _ NegInf = NegInf"

text \<open>
  \<open>a / b\<close> with a finite divisor: a finite dividend over zero is an infinity of the
  dividend's sign, and \<open>0 / 0\<close> is \<open>NaN\<close>.
\<close>

fun js_div :: "rat jsnum \<Rightarrow> rat \<Rightarrow> rat jsnum" where
  "js_div (Num a) b =
     (if b = 0 then (if a = 0 then NaN else if 0 < a then PosInf else NegInf)
      else Num (a / b))"
| "js_div NaN b = NaN"
| "js_div PosInf b = (if b < 0 then NegInf else PosInf)"
| "js_div NegInf b = (if b < 0 then PosInf else NegInf)"

text \<open>
  \<open>a % b\<close> on whole numbers: the remainder takes the sign of the dividend, and the
  remainder by zero is \<open>NaN\<close> (here \<open>None\<close>).
\<close>

definition js_rem :: "int \<Rightarrow> int \<Rightarrow> int option" where
  "js_rem a b = (if b = 0 then None else Some (sgn a * (\<bar>a\<bar> mod \<bar>b\<bar>)))"

text \<open>
  \<open>~~(a / b)\<close> on whole numbers: the quotient truncated towards zero, then wrapped to a
  signed 32-bit integer; \<open>~~\<close> of an infinity or of \<open>NaN\<close> (a zero divisor) is \<open>0\<close>.
\<close>

definition to_int32 :: "int \<Rightarrow> int" where
  "to_int32 n = (n + 2 ^ 31) mod 2 ^ 32 - 2 ^ 31"

definition js_trunc_div :: "int \<Rightarrow> int \<Rightarrow> int" where
  "js_trunc_div a b =
     (if b = 0 then 0 else to_int32 (sgn a * sgn b * (\<bar>a\<bar> div \<bar>b\<bar>)))"

text \<open>
  Number to string, as \<open>"" + n\<close> does for a whole number (below \<open>10^21\<close> in magnitude,
  where JavaScript prints all digits), \<open>NaN\<close> and the infinities.
\<close>

fun digits :: "nat \<Rightarrow> string" where
  "digits n =
     (if n < 10 then [''0123456789'' ! n]
      else digits (n div 10) @ [''0123456789'' ! (n mod 10)])"

declare digits.simps [simp del]

definition int_to_string :: "int \<Rightarrow> string" where
  "int_to_string i = (if i < 0 then ''-'' @ digits (nat (- i)) else digits (nat i))"

fun number_to_string :: "int jsnum \<Rightarrow> string" where
  "number_to_string (Num i) = int_to_string i"
| "number_to_string NaN = ''NaN''"
| "number_to_string PosInf = ''Infinity''"
| "number_to_string NegInf = ''-Infinity''"

text \<open>
  String to number, as unary \<open>+\<close> does: \<open>undefined\<close> is \<open>NaN\<close>; white space around the
  text is dropped; the empty text is \<open>0\<close>; an optionally signed run of decimal digits is
  that whole number; \<open>Infinity\<close> is itself; any other text is \<open>NaN\<close>. Literals with a
  fraction, an exponent or a radix prefix are not whole pixel coordinates and are outside
  this model (they read as \<open>NaN\<close> here).
\<close>

definition digit_value :: "char \<Rightarrow> nat option" where
  "digit_value c = map_of (zip ''0123456789'' [0, 1, 2, 3, 4, 5, 6, 7, 8, 9]) c"

fun parse_digits :: "string \<Rightarrow> nat \<Rightarrow> nat option" where
  "parse_digits [] acc = Some acc"
| "parse_digits (c # cs) acc =
     (case digit_value c of
        None \<Rightarrow> None
      | Some d \<Rightarrow> parse_digits cs (10 * acc + d))"

definition is_space :: "char \<Rightarrow> bool" where
  "is_space c = (c = CHR '' '' \<or> c = CHR 0x09 \<or> c = CHR 0x0A \<or> c = CHR 0x0B
                 \<or> c = CHR 0x0C \<or> c = CHR 0x0D)"

definition trim :: "string \<Rightarrow> string" where
  "trim s = rev (dropWhile is_space (rev (dropWhile is_space s)))"

definition unsigned_number :: "string \<Rightarrow> int jsnum" where
  "unsigned_number s =
     (if s = ''Infinity'' then PosInf
      else if s = [] then NaN
      else (case parse_digits s 0 of Some n \<Rightarrow> Num (int n) | None \<Rightarrow> NaN))"

fun negate :: "int jsnum \<Rightarrow> int jsnum" where
  "negate (Num i) = Num (- i)"
| "negate NaN = NaN"
| "negate PosInf = NegInf"
| "negate NegInf = PosInf"

definition to_number :: "string option \<Rightarrow> int jsnum" where
  "to_number v =
     (case v of
        None \<Rightarrow> NaN
      | Some s \<Rightarrow>
          (case trim s of
             [] \<Rightarrow> Num 0
           | c # cs \<Rightarrow>
               if c = CHR ''+'' then unsigned_number cs
               else if c = CHR ''-'' then negate (unsigned_number cs)
               else unsigned_number (c # cs)))"

text \<open>\<open>name.split(",")\<close> and \<open>keys[i]\<close> (\<open>undefined\<close> past the end).\<close>

fun split_comma :: "string \<Rightarrow> string list" where
  "split_comma [] = [[]]"
| "split_comma (c # cs) =
     (if c = CHR '','' then [] # split_comma cs
      else (case split_comma cs of
              p # ps \<Rightarrow> (c # p) # ps
            | [] \<Rightarrow> [[c]]))"

definition nth_opt :: "'a list \<Rightarrow> nat \<Rightarrow> 'a option" where
  "nth_opt xs i = (if i < length xs then Some (xs ! i) else None)"

text \<open>\<open>s.includes(sub)\<close>: \<open>sub\<close> occurs in \<open>s\<close> as a contiguous run.\<close>

fun str_includes :: "string \<Rightarrow> string \<Rightarrow> bool" where
  "str_includes [] sub = (sub = [])"
| "str_includes (c # cs) sub = (take (length sub) (c # cs) = sub \<or> str_includes cs sub)"

text \<open>\<open>s || d\<close> for an optional string: \<open>undefined\<close> and the empty string are falsy.\<close>

definition or_default :: "string option \<Rightarrow> string \<Rightarrow> string" where
  "or_default s d = (case s of None \<Rightarrow> d | Some t \<Rightarrow> if t = [] then d else t)"

section \<open>TextureAtlas (src/video/texture/atlas.js)\<close>

subsection \<open>Atlas descriptors and the environment\<close>

text \<open>An image (\<open>HTMLImageElement\<close> or canvas): its \<open>src\<close>, \<open>width\<close> and \<open>height\<close>.\<close>

record image =
  img_src :: string
  img_width :: int
  img_height :: int

text \<open>A \<open>{x, y, w, h}\<close> rectangle of the JSON export, in whole pixels.\<close>

record rect =
  rect_x :: int
  rect_y :: int
  rect_w :: int
  rect_h :: int

text \<open>
  \<open>atlas.meta\<close>: \<open>app\<close>, \<open>image\<close>, \<open>size\<close> (as \<open>(w, h)\<close>), \<open>repeat\<close> and \<open>exporter\<close>; a property
  that is absent reads as \<open>undefined\<close>, here \<open>None\<close>.
\<close>

record meta =
  app :: "string option"
  image_name :: "string option"
  sheet_size :: "(int \<times> int) option"
  repeat_mode :: "string option"
  exporter :: "string option"

text \<open>
  An entry of \<open>atlas.frames\<close>. \<open>rotated\<close> stands for \<open>frame.rotated === true\<close> and
  \<open>frame_trimmed\<close> for the truthiness of \<open>frame.trimmed\<close>; \<open>sourceSize\<close> is \<open>(w, h)\<close> and
  \<open>pivot\<close> is \<open>(x, y)\<close>.
\<close>

record frame_entry =
  filename :: "string option"
  frame :: "rect option"
  rotated :: bool
  frame_trimmed :: bool
  spriteSourceSize :: "rect option"
  sourceSize :: "(int \<times> int) option"
  pivot :: "(rat \<times> rat) option"

record packed =
  meta :: meta
  frames :: "frame_entry list option"

text \<open>
  A fixed-cell spritesheet descriptor: \<open>framewidth\<close>, \<open>frameheight\<close>, and the optional
  \<open>spacing\<close>, \<open>margin\<close>, \<open>anchorPoint\<close> and \<open>image\<close>.
\<close>

record sheet =
  framewidth :: int
  frameheight :: int
  spacing :: "int option"
  margin :: "int option"
  sheet_anchor :: "(rat \<times> rat) option"
  sheet_image :: "image option"

text \<open>
  The constructor classifies a descriptor by its structure: one with a \<open>meta\<close> property
  (\<open>Packed\<close>), one without \<open>meta\<close> but with both \<open>framewidth\<close> and \<open>frameheight\<close>
  (\<open>Sheet\<close>), and any other object (\<open>Unrecognized\<close>).
\<close>

datatype descriptor = Packed packed | Sheet sheet | Unrecognized

datatype atlases_arg = One descriptor | Many "descriptor list"

datatype src_arg = SrcName string | SrcImage image

text \<open>
  What the atlas reads from its surroundings: whether \<open>renderer.gl\<close> is defined (the
  WebGL renderer), \<open>renderer.settings.verbose\<close>, and the loader's \<open>getImage\<close>, which
  yields no image (\<open>null\<close>) for a name it does not know.
\<close>

record env =
  gl :: bool
  verbose :: bool
  getImage :: "string option \<Rightarrow> image option"

subsection \<open>Regions, tables and the store\<close>

datatype angle = Angle_zero | Angle_negETA

text \<open>
  A region object. \<open>addRegion\<close> creates regions without \<open>texture\<close>, \<open>anchorPoint\<close> and
  \<open>trimmed\<close>, and \<open>uvs\<close> exists only once \<open>addUVs\<close> has run under WebGL: an absent
  property is \<open>None\<close>. An anchor point that is present is a vector or \<open>null\<close>
  (\<open>Some None\<close>).
\<close>

record region =
  name :: string
  texture :: "string option"
  offset :: "int jsnum \<times> int jsnum"
  anchorPoint :: "(rat jsnum \<times> rat jsnum) option option"
  trimmed :: "bool option"
  width :: "int jsnum"
  height :: "int jsnum"
  angle :: angle
  uvs :: "rat jsnum list option"

text \<open>
  Region objects are shared: \<open>addUVs\<close> stores the same object under a second key. A
  reference to a region is the index of the object in the store of all region objects
  allocated so far.
\<close>

definition deref :: "region list \<Rightarrow> nat \<Rightarrow> region option" where
  "deref hp r = (if r < length hp then Some (hp ! r) else None)"

text \<open>
  What reading a property of an atlas dictionary, \<open>atlas[name]\<close>, yields: \<open>undefined\<close>,
  \<open>null\<close>, a region object (by reference), or another value. The other values are
  strings, numbers, booleans, vectors, arrays, functions and \<open>Object.prototype\<close>; the
  source does the same with each: \<open>typeof\<close> is not \<open>"undefined"\<close>, and the properties
  \<open>offset\<close> and \<open>uvs\<close> read as \<open>undefined\<close>.
\<close>

datatype jsprop = Prop_undefined | Prop_null | Prop_other | Prop_region nat

text \<open>The own properties of a region object, by name.\<close>

definition region_property :: "region \<Rightarrow> string \<Rightarrow> jsprop option" where
  "region_property reg nm =
     (if nm = ''name'' \<or> nm = ''offset'' \<or> nm = ''width'' \<or> nm = ''height''
         \<or> nm = ''angle'' then Some Prop_other
      else if nm = ''texture'' then map_option (\<lambda>v. Prop_other) (texture reg)
      else if nm = ''trimmed'' then map_option (\<lambda>v. Prop_other) (trimmed reg)
      else if nm = ''uvs'' then map_option (\<lambda>v. Prop_other) (uvs reg)
      else if nm = ''anchorPoint'' then
        map_option (\<lambda>v. case v of None \<Rightarrow> Prop_null | Some a \<Rightarrow> Prop_other) (anchorPoint reg)
      else None)"

text \<open>
  An atlas dictionary is a plain object (\<open>let atlas = {}\<close>) to which the source only
  ever assigns region objects. Its own properties (\<open>own\<close>) map a key to the reference of
  a region. Its prototype is \<open>Object.prototype\<close> (\<open>proto\<close> is \<open>None\<close>) until a region is
  assigned to \<open>atlas["__proto__"]\<close>: that assignment creates no own property but makes
  the region object the prototype of the dictionary.
\<close>

record table =
  own :: "string \<rightharpoonup> nat"
  proto :: "nat option"

definition empty_table :: table where
  "empty_table = \<lparr>own = Map.empty, proto = None\<rparr>"

text \<open>
  \<open>atlas[name]\<close>, read: \<open>__proto__\<close> is the prototype; any other name is the own
  property, or else the property of the region that is the prototype, or else the
  member of \<open>Object.prototype\<close> (the end of the chain in either case), or else
  \<open>undefined\<close>.
\<close>

definition table_get :: "region list \<Rightarrow> table \<Rightarrow> string \<Rightarrow> jsprop" where
  "table_get hp t nm =
     (if nm = ''__proto__'' then
        (case proto t of
           None \<Rightarrow> Prop_other
         | Some p \<Rightarrow> Prop_region p)
      else
        (case own t nm of
           Some r \<Rightarrow> Prop_region r
         | None \<Rightarrow>
             (case (case proto t of
                      None \<Rightarrow> None
                    | Some p \<Rightarrow>
                        (case deref hp p of
                           None \<Rightarrow> None
                         | Some reg \<Rightarrow> region_property reg nm)) of
                Some v \<Rightarrow> v
              | None \<Rightarrow> if inherited nm then Prop_other else Prop_undefined)))"

text \<open>\<open>atlas[name] = region\<close>.\<close>

definition table_set :: "table \<Rightarrow> string \<Rightarrow> nat \<Rightarrow> table" where
  "table_set t nm r =
     (if nm = ''__proto__'' then t\<lparr>proto := Some r\<rparr>
      else t\<lparr>own := (own t)(nm \<mapsto> r)\<rparr>)"

text \<open>Console output: the truncation warning, and the notice of \<open>addRegion\<close>.\<close>

datatype warning = Warn string | Adding_region string

text \<open>
  What lives outside the atlas object: the store of regions, the console, and the sources
  registered in \<open>renderer.cache\<close>.
\<close>

record world =
  heap :: "region list"
  console :: "warning list"
  cache :: "image option list"

text \<open>
  The fields of a \<open>TextureAtlas\<close>. \<open>sources\<close> and \<open>atlases\<close> are \<open>Map\<close>s, which keep
  insertion order: association lists, written by \<open>map_set\<close>.
\<close>

record texture_atlas =
  format :: "string option"
  repeat :: "string option"
  sources :: "(string option \<times> image option) list"
  atlases :: "(string \<times> table) list"

fun map_set :: "'k \<Rightarrow> 'v \<Rightarrow> ('k \<times> 'v) list \<Rightarrow> ('k \<times> 'v) list" where
  "map_set k v [] = [(k, v)]"
| "map_set k v ((k', v') # m) = (if k' = k then (k, v) # m else (k', v') # map_set k v m)"

text \<open>\<open>m.values().next().value\<close>: the first value, \<open>undefined\<close> for an empty \<open>Map\<close>.\<close>

fun first_value :: "('k \<times> 'v) list \<Rightarrow> 'v option" where
  "first_value [] = None"
| "first_value ((k, v) # m) = Some v"

text \<open>
  \<open>this.atlases.length\<close>: a \<open>Map\<close> has a \<open>size\<close> and no \<open>length\<close> property, so the read
  is \<open>undefined\<close> whatever the \<open>Map\<close> holds.
\<close>

definition Map_length :: "('k \<times> 'v) list \<Rightarrow> nat option" where
  "Map_length m = None"

subsection \<open>addUVs\<close>

text \<open>
  \<open>addUVs(atlas, name, w, h)\<close>. Reading \<open>atlas[name].offset\<close> (or \<open>.uvs\<close>) raises when
  \<open>atlas[name]\<close> is \<open>undefined\<close> or \<open>null\<close>. Under WebGL the region object gets its \<open>uvs\<close>,
  the array \<open>[s.x / w, s.y / h, (s.x + sw) / w, (s.y + sh) / h]\<close> (\<open>compute_uvs\<close>), and is
  stored a second time under the key \<open>s.x + "," + s.y + "," + w + "," + h\<close>
  (\<open>coordinate_key\<close>), where \<open>s\<close> is the region's offset, \<open>sw\<close> and \<open>sh\<close> its size, and
  \<open>w\<close> and \<open>h\<close> the parameters of \<open>addUVs\<close>. When \<open>atlas[name]\<close> is a value other than a
  region, its \<open>offset\<close> is \<open>undefined\<close> and \<open>s.x\<close> raises under WebGL; without WebGL its
  \<open>uvs\<close>, \<open>undefined\<close>, is returned. A dictionary never holds a reference that was not
  allocated; the model reports that impossible case as a \<open>TypeError\<close> too.
\<close>

definition compute_uvs :: "region \<Rightarrow> int \<Rightarrow> int \<Rightarrow> rat jsnum list" where
  "compute_uvs reg w h =
     (let s = offset reg;
          sw = width reg;
          sh = height reg
      in [js_div (of_px (fst s)) (of_int w),
          js_div (of_px (snd s)) (of_int h),
          js_div (of_px (js_add (fst s) sw)) (of_int w),
          js_div (of_px (js_add (snd s) sh)) (of_int h)])"

definition coordinate_key :: "region \<Rightarrow> int \<Rightarrow> int \<Rightarrow> string" where
  "coordinate_key reg w h =
     (let s = offset reg
      in number_to_string (fst s) @ '','' @ number_to_string (snd s)
         @ '','' @ int_to_string w @ '','' @ int_to_string h)"

definition addUVs ::
  "env \<Rightarrow> region list \<Rightarrow> table \<Rightarrow> string \<Rightarrow> int \<Rightarrow> int
     \<Rightarrow> js_error + (rat jsnum list option \<times> table \<times> region list)" where
  "addUVs e hp atlas nm w h =
     (case table_get hp atlas nm of
        Prop_undefined \<Rightarrow> Inl TypeError
      | Prop_null \<Rightarrow> Inl TypeError
      | Prop_other \<Rightarrow> if gl e then Inl TypeError else Inr (None, atlas, hp)
      | Prop_region r \<Rightarrow>
          (case deref hp r of
             None \<Rightarrow> Inl TypeError
           | Some reg \<Rightarrow>
               if gl e then
                 (let uv = compute_uvs reg w h;
                      key = coordinate_key reg w h
                  in Inr (Some uv, table_set atlas key r, hp[r := reg\<lparr>uvs := Some uv\<rparr>]))
               else Inr (uvs reg, atlas, hp)))"

subsection \<open>parse\<close>

text \<open>
  The anchor point of a packed frame: a vector when \<open>spriteSourceSize\<close>, \<open>sourceSize\<close>
  and \<open>pivot\<close> all are present, and \<open>null\<close> (\<open>None\<close>) otherwise.
\<close>

definition frame_anchor :: "frame_entry \<Rightarrow> rect \<Rightarrow> (rat jsnum \<times> rat jsnum) option" where
  "frame_anchor f s =
     (case (spriteSourceSize f, sourceSize f, pivot f) of
        (Some sss, Some (sw, sh), Some (px, py)) \<Rightarrow>
          (let originX = of_int sw * px - (if frame_trimmed f then of_int (rect_x sss) else 0);
               originY = of_int sh * py - (if frame_trimmed f then of_int (rect_y sss) else 0)
           in Some (js_div (Num originX) (of_int (rect_w s)),
                    js_div (Num originY) (of_int (rect_h s))))
      | _ \<Rightarrow> None)"

text \<open>The region object that \<open>parse\<close> builds for a frame named \<open>fname\<close> with rectangle \<open>s\<close>.\<close>

definition frame_region :: "packed \<Rightarrow> frame_entry \<Rightarrow> string \<Rightarrow> rect \<Rightarrow> region" where
  "frame_region data f fname s =
     \<lparr>name = fname,
      texture = Some (or_default (image_name (meta data)) ''default''),
      offset = (Num (rect_x s), Num (rect_y s)),
      anchorPoint = Some (frame_anchor f s),
      trimmed = Some (frame_trimmed f),
      width = Num (rect_w s),
      height = Num (rect_h s),
      angle = (if rotated f then Angle_negETA else Angle_zero),
      uvs = None\<rparr>"

text \<open>
  The body of the \<open>forEach\<close> of \<open>parse\<close>: an entry without \<open>filename\<close> is passed over; for
  the others, \<open>s.x\<close> raises when the entry has no \<open>frame\<close>, and \<open>data.meta.size.w\<close> raises
  when the descriptor has no \<open>meta.size\<close>.
\<close>

definition parse_frame ::
  "env \<Rightarrow> packed \<Rightarrow> frame_entry \<Rightarrow> table \<Rightarrow> region list
     \<Rightarrow> js_error + (table \<times> region list)" where
  "parse_frame e data f atlas hp =
     (case filename f of
        None \<Rightarrow> Inr (atlas, hp)
      | Some fname \<Rightarrow>
          (case frame f of
             None \<Rightarrow> Inl TypeError
           | Some s \<Rightarrow>
               (case sheet_size (meta data) of
                  None \<Rightarrow> Inl TypeError
                | Some (w, h) \<Rightarrow>
                    (case addUVs e (hp @ [frame_region data f fname s])
                            (table_set atlas fname (length hp)) fname w h of
                       Inl err \<Rightarrow> Inl err
                     | Inr (_, atlas', hp') \<Rightarrow> Inr (atlas', hp')))))"

fun parse_frames ::
  "env \<Rightarrow> packed \<Rightarrow> frame_entry list \<Rightarrow> table \<Rightarrow> region list
     \<Rightarrow> js_error + (table \<times> region list)" where
  "parse_frames e data [] atlas hp = Inr (atlas, hp)"
| "parse_frames e data (f # fs) atlas hp =
     (case parse_frame e data f atlas hp of
        Inl err \<Rightarrow> Inl err
      | Inr (atlas', hp') \<Rightarrow> parse_frames e data fs atlas' hp')"

text \<open>\<open>parse(data)\<close>: \<open>data.frames.forEach\<close> raises when there is no \<open>frames\<close> list.\<close>

definition parse ::
  "env \<Rightarrow> region list \<Rightarrow> packed \<Rightarrow> js_error + (table \<times> region list)" where
  "parse e hp data =
     (case frames data of
        None \<Rightarrow> Inl TypeError
      | Some fs \<Rightarrow> parse_frames e data fs empty_table hp)"

subsection \<open>parseFromSpriteSheet\<close>

text \<open>\<open>data.spacing || 0\<close> and \<open>data.margin || 0\<close>.\<close>

definition spacing_of :: "sheet \<Rightarrow> int" where
  "spacing_of data = (case spacing data of None \<Rightarrow> 0 | Some v \<Rightarrow> v)"

definition margin_of :: "sheet \<Rightarrow> int" where
  "margin_of data = (case margin data of None \<Rightarrow> 0 | Some v \<Rightarrow> v)"

text \<open>
  The sprite count per axis (\<open>pool.pull("Vector2d", ...)\<close> is a pair of numbers here):
  \<open>~~((width - margin + spacing) / (framewidth + spacing))\<close>, and the same in height.
\<close>

definition sprite_count :: "sheet \<Rightarrow> image \<Rightarrow> int \<times> int" where
  "sprite_count data img =
     (js_trunc_div (img_width img - margin_of data + spacing_of data)
        (framewidth data + spacing_of data),
      js_trunc_div (img_height img - margin_of data + spacing_of data)
        (frameheight data + spacing_of data))"

text \<open>
  "Verifying the texture size": the effective width and height handed to \<open>addUVs\<close>, and
  whether the warning is printed. The size is replaced by the computed one only when the
  image is not a multiple of the cell stride in some direction and neither computed
  dimension exceeds the image's by exactly the spacing.
\<close>

definition effective_size :: "sheet \<Rightarrow> image \<Rightarrow> int \<times> int \<times> bool" where
  "effective_size data img =
     (let w = img_width img;
          h = img_height img;
          spritecount = sprite_count data img
      in if js_rem w (framewidth data + spacing_of data) \<noteq> Some 0
            \<or> js_rem h (frameheight data + spacing_of data) \<noteq> Some 0
         then (let computed_width = fst spritecount * (framewidth data + spacing_of data);
                   computed_height = snd spritecount * (frameheight data + spacing_of data)
               in if computed_width - w \<noteq> spacing_of data
                     \<and> computed_height - h \<noteq> spacing_of data
                  then (computed_width, computed_height, True)
                  else (w, h, False))
         else (w, h, False))"

definition truncation_warning :: "sheet \<Rightarrow> image \<Rightarrow> int \<Rightarrow> int \<Rightarrow> warning" where
  "truncation_warning data img w h =
     Warn (''Spritesheet Texture for image: '' @ img_src img
           @ '' is not divisible by '' @ int_to_string (framewidth data + spacing_of data)
           @ ''x'' @ int_to_string (frameheight data + spacing_of data)
           @ '', truncating effective size to '' @ int_to_string w
           @ ''x'' @ int_to_string h)"

text \<open>The region object built for cell number \<open>fr\<close> of the grid.\<close>

definition sheet_region :: "sheet \<Rightarrow> int \<times> int \<Rightarrow> int \<Rightarrow> region" where
  "sheet_region data spritecount fr =
     \<lparr>name = int_to_string fr,
      texture = Some ''default'',
      offset =
        ((case js_rem fr (fst spritecount) of
            None \<Rightarrow> NaN
          | Some m \<Rightarrow> Num (margin_of data + (spacing_of data + framewidth data) * m)),
         Num (margin_of data
              + (spacing_of data + frameheight data) * js_trunc_div fr (fst spritecount))),
      anchorPoint = Some (map_option (\<lambda>(ax, ay). (Num ax, Num ay)) (sheet_anchor data)),
      trimmed = Some False,
      width = Num (framewidth data),
      height = Num (frameheight data),
      angle = Angle_zero,
      uvs = None\<rparr>"

text \<open>The loop "build the local atlas", over the cell numbers \<open>0, ..., count - 1\<close>.\<close>

fun sheet_frames ::
  "env \<Rightarrow> sheet \<Rightarrow> int \<times> int \<Rightarrow> int \<Rightarrow> int \<Rightarrow> nat list \<Rightarrow> table \<Rightarrow> region list
     \<Rightarrow> js_error + (table \<times> region list)" where
  "sheet_frames e data spritecount w h [] atlas hp = Inr (atlas, hp)"
| "sheet_frames e data spritecount w h (fr # rest) atlas hp =
     (case addUVs e (hp @ [sheet_region data spritecount (int fr)])
             (table_set atlas (int_to_string (int fr)) (length hp))
             (int_to_string (int fr)) w h of
        Inl err \<Rightarrow> Inl err
      | Inr (_, atlas', hp') \<Rightarrow> sheet_frames e data spritecount w h rest atlas' hp')"

text \<open>
  \<open>parseFromSpriteSheet(data)\<close>: \<open>image.width\<close> raises when the descriptor has no image.
\<close>

definition parseFromSpriteSheet ::
  "env \<Rightarrow> world \<Rightarrow> sheet \<Rightarrow> js_error + (table \<times> world)" where
  "parseFromSpriteSheet e wd data =
     (case sheet_image data of
        None \<Rightarrow> Inl TypeError
      | Some img \<Rightarrow>
          (let spritecount = sprite_count data img;
               (w, h, warned) = effective_size data img;
               wd1 = (if warned
                      then wd\<lparr>console := console wd @ [truncation_warning data img w h]\<rparr>
                      else wd)
           in case sheet_frames e data spritecount w h
                     [0 ..< nat (fst spritecount * snd spritecount)] empty_table
                     (heap wd1) of
                Inl err \<Rightarrow> Inl err
              | Inr (atlas, hp') \<Rightarrow> Inr (atlas, wd1\<lparr>heap := hp'\<rparr>)))"

subsection \<open>The constructor\<close>

text \<open>\<open>typeof src === "string" ? getImage(src) : src\<close>.\<close>

definition resolve_src :: "env \<Rightarrow> src_arg option \<Rightarrow> image option" where
  "resolve_src e src =
     (case src of
        None \<Rightarrow> None
      | Some (SrcName s) \<Rightarrow> getImage e (Some s)
      | Some (SrcImage img) \<Rightarrow> Some img)"

text \<open>
  The format branches for a descriptor with \<open>meta\<close>, up to the call of \<open>parse\<close>. When
  \<open>getImage\<close> finds nothing the message is built from the missing image, which prints as
  \<open>null\<close>. An \<open>app\<close> that matches no branch changes nothing.
\<close>

definition set_format :: "env \<Rightarrow> src_arg option \<Rightarrow> meta \<Rightarrow> string \<Rightarrow> texture_atlas
     \<Rightarrow> js_error + texture_atlas" where
  "set_format e src m a this =
     (if str_includes a ''texturepacker'' \<or> str_includes a ''free-tex-packer'' then
        (case src of
           None \<Rightarrow>
             (case getImage e (image_name m) of
                None \<Rightarrow> Inl (Error ''Atlas texture 'null' not found'')
              | Some img \<Rightarrow>
                  Inr (this\<lparr>format := Some ''texturepacker'',
                            sources := map_set (image_name m) (Some img) (sources this),
                            repeat := Some ''no-repeat''\<rparr>))
         | Some _ \<Rightarrow>
             Inr (this\<lparr>format := Some ''texturepacker'',
                       sources := map_set (Some (or_default (image_name m) ''default''))
                                    (resolve_src e src) (sources this),
                       repeat := Some ''no-repeat''\<rparr>))
      else if str_includes a ''ShoeBox'' then
        (if (case exporter m of
               None \<Rightarrow> True
             | Some x \<Rightarrow> x = [] \<or> \<not> str_includes x ''melonJS'')
         then Inl (Error (''ShoeBox requires the JSON exporter : '' @
                 ''https://github.com/melonjs/melonJS/tree/master/media/shoebox_JSON_export.sbx''))
         else Inr (this\<lparr>format := Some ''ShoeBox'',
                        repeat := Some ''no-repeat'',
                        sources := map_set (Some ''default'') (resolve_src e src)
                                     (sources this)\<rparr>))
      else if str_includes a ''melonJS'' then
        Inr (this\<lparr>format := Some ''melonJS'',
                  repeat := Some (or_default (repeat_mode m) ''no-repeat''),
                  sources := map_set (Some ''default'') (resolve_src e src) (sources this)\<rparr>)
      else Inr this)"

text \<open>
  The body of the loop over the descriptors. \<open>atlas.meta.app.includes\<close> raises when
  \<open>meta\<close> has no \<open>app\<close>. For a descriptor with \<open>meta\<close>, \<open>parse\<close> is called and its result
  stored whatever the \<open>app\<close> was. An unrecognized descriptor is passed over.
\<close>

definition add_atlas ::
  "env \<Rightarrow> src_arg option \<Rightarrow> descriptor \<Rightarrow> texture_atlas \<times> world
     \<Rightarrow> js_error + texture_atlas \<times> world" where
  "add_atlas e src atlas st =
     (case st of (this, wd) \<Rightarrow>
        (case atlas of
           Packed data \<Rightarrow>
             (case app (meta data) of
                None \<Rightarrow> Inl TypeError
              | Some a \<Rightarrow>
                  (case set_format e src (meta data) a this of
                     Inl err \<Rightarrow> Inl err
                   | Inr this1 \<Rightarrow>
                       (case parse e (heap wd) data of
                          Inl err \<Rightarrow> Inl err
                        | Inr (tbl, hp') \<Rightarrow>
                            Inr (this1\<lparr>atlases :=
                                   map_set (or_default (image_name (meta data)) ''default'')
                                     tbl (atlases this1)\<rparr>,
                                 wd\<lparr>heap := hp'\<rparr>))))
         | Sheet data \<Rightarrow>
             (let data1 = (case src of
                             None \<Rightarrow> data
                           | Some _ \<Rightarrow> data\<lparr>sheet_image := resolve_src e src\<rparr>)
              in case parseFromSpriteSheet e wd data1 of
                   Inl err \<Rightarrow> Inl err
                 | Inr (tbl, wd1) \<Rightarrow>
                     Inr (this\<lparr>format := Some ''Spritesheet (fixed cell size)'',
                               repeat := Some ''no-repeat'',
                               atlases := map_set ''default'' tbl (atlases this),
                               sources := map_set (Some ''default'') (sheet_image data1)
                                            (sources this)\<rparr>,
                          wd1))
         | Unrecognized \<Rightarrow> Inr (this, wd)))"

fun add_atlases ::
  "env \<Rightarrow> src_arg option \<Rightarrow> descriptor list \<Rightarrow> texture_atlas \<times> world
     \<Rightarrow> js_error + texture_atlas \<times> world" where
  "add_atlases e src [] st = Inr st"
| "add_atlases e src (atlas # rest) st =
     (case add_atlas e src atlas st of
        Inl err \<Rightarrow> Inl err
      | Inr st1 \<Rightarrow> add_atlases e src rest st1)"

text \<open>
  \<open>new TextureAtlas(atlases, src, cache)\<close>. After the loop the source tests
  \<open>this.atlases.length === 0\<close> before throwing "texture atlas format not supported";
  then every source is registered in the renderer cache unless \<open>cache\<close> is \<open>false\<close>.
\<close>

definition new_TextureAtlas ::
  "env \<Rightarrow> world \<Rightarrow> atlases_arg option \<Rightarrow> src_arg option \<Rightarrow> bool option
     \<Rightarrow> js_error + texture_atlas \<times> world" where
  "new_TextureAtlas e wd arg src cache_arg =
     (let this0 = \<lparr>format = None, repeat = None, sources = [], atlases = []\<rparr>
      in case (case arg of
                 None \<Rightarrow> Inr (this0, wd)
               | Some (One atlas) \<Rightarrow> add_atlases e src [atlas] (this0, wd)
               | Some (Many list) \<Rightarrow> add_atlases e src list (this0, wd)) of
           Inl err \<Rightarrow> Inl err
         | Inr (this, wd1) \<Rightarrow>
             if Map_length (atlases this) = Some 0
             then Inl (Error ''texture atlas format not supported'')
             else if cache_arg \<noteq> Some False
             then Inr (this, wd1\<lparr>cache := cache wd1 @ map snd (sources this)\<rparr>)
             else Inr (this, wd1))"

subsection \<open>Lookups\<close>

text \<open>\<open>getAtlas(name)\<close>: the named dictionary, or the first one when no name is given.\<close>

definition getAtlas :: "texture_atlas \<Rightarrow> string option \<Rightarrow> table option" where
  "getAtlas this nm =
     (case nm of
        Some n \<Rightarrow> map_of (atlases this) n
      | None \<Rightarrow> first_value (atlases this))"

text \<open>
  \<open>getTexture(region)\<close>: the source named by the region's \<open>texture\<close>, or the first source;
  \<open>None\<close> is \<open>undefined\<close> or \<open>null\<close>.
\<close>

definition getTexture :: "texture_atlas \<Rightarrow> region option \<Rightarrow> image option" where
  "getTexture this reg =
     (case (case reg of None \<Rightarrow> None | Some r \<Rightarrow> texture r) of
        Some t \<Rightarrow> (case map_of (sources this) (Some t) of None \<Rightarrow> None | Some v \<Rightarrow> v)
      | None \<Rightarrow> (case first_value (sources this) of None \<Rightarrow> None | Some v \<Rightarrow> v))"

text \<open>
  \<open>addRegion(name, x, y, w, h)\<close>: \<open>source.width\<close> raises without a first source, and
  \<open>atlas[name] = ...\<close> raises without a first dictionary. The new region is assigned
  to \<open>atlas[name]\<close> in the first dictionary; the result is \<open>atlas[name]\<close>, read back.
\<close>

definition addRegion ::
  "env \<Rightarrow> texture_atlas \<times> world \<Rightarrow> string \<Rightarrow> int jsnum \<Rightarrow> int jsnum \<Rightarrow> int jsnum
     \<Rightarrow> int jsnum \<Rightarrow> js_error + (jsprop \<times> texture_atlas \<times> world)" where
  "addRegion e st nm x y w h =
     (case st of (this, wd) \<Rightarrow>
        (let wd1 = (if verbose e then wd\<lparr>console := console wd @ [Adding_region nm]\<rparr>
                    else wd)
         in case getTexture this None of
              None \<Rightarrow> Inl TypeError
            | Some source \<Rightarrow>
                (case atlases this of
                   [] \<Rightarrow> Inl TypeError
                 | (k, atlas) # rest \<Rightarrow>
                     (case addUVs e
                             (heap wd1 @ [\<lparr>name = nm, texture = None, offset = (x, y),
                                           anchorPoint = None, trimmed = None, width = w,
                                           height = h, angle = Angle_zero, uvs = None\<rparr>])
                             (table_set atlas nm (length (heap wd1))) nm
                             (img_width source) (img_height source) of
                        Inl err \<Rightarrow> Inl err
                      | Inr (_, atlas', hp') \<Rightarrow>
                          Inr (table_get hp' atlas' nm, this\<lparr>atlases := (k, atlas') # rest\<rparr>,
                               wd1\<lparr>heap := hp'\<rparr>)))))"

text \<open>
  \<open>getRegion(name, atlas)\<close>: with an atlas name, \<open>atlas[name]\<close> of that dictionary
  (reading it raises when there is no such dictionary); without, \<open>atlas[name]\<close> of the
  first dictionary, in insertion order, for which \<open>typeof atlas[name]\<close> is not
  \<open>"undefined"\<close>, and \<open>undefined\<close> when there is none. The dictionaries hold references,
  so the lookup reads the store (\<open>hp\<close>).
\<close>

fun first_region :: "region list \<Rightarrow> (string \<times> table) list \<Rightarrow> string \<Rightarrow> jsprop" where
  "first_region hp [] nm = Prop_undefined"
| "first_region hp ((k, atlas) # rest) nm =
     (if table_get hp atlas nm \<noteq> Prop_undefined then table_get hp atlas nm
      else first_region hp rest nm)"

definition getRegion ::
  "region list \<Rightarrow> texture_atlas \<Rightarrow> string \<Rightarrow> string option \<Rightarrow> js_error + jsprop" where
  "getRegion hp this nm atlas =
     (case atlas of
        Some a \<Rightarrow>
          (case getAtlas this (Some a) of
             None \<Rightarrow> Inl TypeError
           | Some tbl \<Rightarrow> Inr (table_get hp tbl nm))
      | None \<Rightarrow> Inr (first_region hp (atlases this) nm))"

text \<open>
  \<open>region.uvs\<close>: raises on \<open>undefined\<close> and \<open>null\<close>; the \<open>uvs\<close> of a region object, which
  is \<open>undefined\<close> (\<open>None\<close>) when the region has none; \<open>undefined\<close> on any other value.
\<close>

definition read_uvs :: "region list \<Rightarrow> jsprop \<Rightarrow> js_error + rat jsnum list option" where
  "read_uvs hp v =
     (case v of
        Prop_undefined \<Rightarrow> Inl TypeError
      | Prop_null \<Rightarrow> Inl TypeError
      | Prop_other \<Rightarrow> Inr None
      | Prop_region r \<Rightarrow>
          (case deref hp r of
             None \<Rightarrow> Inl TypeError
           | Some reg \<Rightarrow> Inr (uvs reg)))"

text \<open>
  \<open>getUVs(name)\<close>: the \<open>uvs\<close> of what \<open>getRegion(name)\<close> returns; when that is
  \<open>undefined\<close>, the name is split at the commas, its first four parts are converted to
  numbers, a region of that name is added with \<open>addRegion\<close>, and the \<open>uvs\<close> of its
  result are returned.
\<close>

definition getUVs ::
  "env \<Rightarrow> texture_atlas \<times> world \<Rightarrow> string
     \<Rightarrow> js_error + (rat jsnum list option \<times> texture_atlas \<times> world)" where
  "getUVs e st nm =
     (case st of (this, wd) \<Rightarrow>
        (case getRegion (heap wd) this nm None of
           Inl err \<Rightarrow> Inl err
         | Inr Prop_undefined \<Rightarrow>
             (let keys = split_comma nm;
                  sx = to_number (nth_opt keys 0);
                  sy = to_number (nth_opt keys 1);
                  sw = to_number (nth_opt keys 2);
                  sh = to_number (nth_opt keys 3)
              in case addRegion e (this, wd) nm sx sy sw sh of
                   Inl err \<Rightarrow> Inl err
                 | Inr (region, this1, wd1) \<Rightarrow>
                     (case read_uvs (heap wd1) region of
                        Inl err \<Rightarrow> Inl err
                      | Inr u \<Rightarrow> Inr (u, this1, wd1)))
         | Inr region \<Rightarrow>
             (case read_uvs (heap wd) region of
                Inl err \<Rightarrow> Inl err
              | Inr u \<Rightarrow> Inr (u, this, wd))))"

subsection \<open>What the statements below refer to\<close>

text \<open>A region after \<open>addUVs(atlas, name, w, h)\<close>: with its \<open>uvs\<close> under WebGL, unchanged otherwise.\<close>

definition with_uvs :: "env \<Rightarrow> region \<Rightarrow> int \<Rightarrow> int \<Rightarrow> region" where
  "with_uvs e reg w h = (if gl e then reg\<lparr>uvs := Some (compute_uvs reg w h)\<rparr> else reg)"

text \<open>
  The dictionary after \<open>atlas[name] = region\<close> and \<open>addUVs(atlas, name, w, h)\<close>, for a
  region \<open>reg\<close> allocated at \<open>r\<close>: under WebGL it also has the coordinate key.
\<close>

definition with_key :: "env \<Rightarrow> table \<Rightarrow> string \<Rightarrow> region \<Rightarrow> int \<Rightarrow> int \<Rightarrow> nat \<Rightarrow> table" where
  "with_key e atlas nm reg w h r =
     (if gl e then table_set (table_set atlas nm r) (coordinate_key reg w h) r
      else table_set atlas nm r)"



text \<open>The entry \<open>{filename: n, frame: {x: a, y: b, w: c, h: d}}\<close>.\<close>

definition named_frame :: "string \<Rightarrow> int \<Rightarrow> int \<Rightarrow> int \<Rightarrow> int \<Rightarrow> frame_entry" where
  "named_frame n a b c d =
     \<lparr>filename = Some n, frame = Some \<lparr>rect_x = a, rect_y = b, rect_w = c, rect_h = d\<rparr>,
      rotated = False, frame_trimmed = False, spriteSourceSize = None, sourceSize = None,
      pivot = None\<rparr>"

text \<open>
  The atlas of the scenario: \<open>meta.app\<close> is \<open>"texturepacker"\<close>, the sheet is 20 by 10, and the
  frames are \<open>a.png\<close> at \<open>(0, 0)\<close> and \<open>b.png\<close> at \<open>(10, 0)\<close>, both 10 by 10. The other
  properties of \<open>meta\<close> are those of \<open>m\<close>.
\<close>

definition two_frames :: "meta \<Rightarrow> packed" where
  "two_frames m =
     \<lparr>meta = m\<lparr>app := Some ''texturepacker'', sheet_size := Some (20, 10)\<rparr>,
      frames = Some [named_frame ''a.png'' 0 0 10 10, named_frame ''b.png'' 10 0 10 10]\<rparr>"

text \<open>
  Two spritesheets of 16 by 16 cells: one with spacing 2 on a 34 by 34 image, one with
  margin 5 and no spacing on a 40 by 40 image.
\<close>

definition grid_34 :: sheet where
  "grid_34 =
     \<lparr>framewidth = 16, frameheight = 16, spacing = Some 2, margin = None,
      sheet_anchor = None,
      sheet_image = Some \<lparr>img_src = ''grid.png'', img_width = 34, img_height = 34\<rparr>\<rparr>"

definition grid_40 :: sheet where
  "grid_40 =
     \<lparr>framewidth = 16, frameheight = 16, spacing = None, margin = Some 5,
      sheet_anchor = None,
      sheet_image = Some \<lparr>img_src = ''grid.png'', img_width = 40, img_height = 40\<rparr>\<rparr>"

text \<open>A WebGL environment whose loader knows no image, an empty world, and a 20 by 10 image.\<close>

definition webgl_env :: env where
  "webgl_env = \<lparr>gl = True, verbose = False, getImage = (\<lambda>_. None)\<rparr>"

definition empty_world :: world where
  "empty_world = \<lparr>heap = [], console = [], cache = []\<rparr>"

definition sheet_20x10 :: image where
  "sheet_20x10 = \<lparr>img_src = ''sheet.png'', img_width = 20, img_height = 10\<rparr>"

definition plain_meta :: meta where
  "plain_meta = \<lparr>app = None, image_name = None, sheet_size = None, repeat_mode = None,
                 exporter = None\<rparr>"



text \<open>
  A 35 by 35 image for the grid of 16 by 16 cells with spacing 2, and a 32 by 40 image
  for a grid of 16 by 16 cells without spacing or margin.
\<close>

definition grid_35 :: sheet where
  "grid_35 =
     grid_34\<lparr>sheet_image := Some \<lparr>img_src = ''grid.png'', img_width = 35, img_height = 35\<rparr>\<rparr>"

definition grid_32x40 :: sheet where
  "grid_32x40 =
     \<lparr>framewidth = 16, frameheight = 16, spacing = None, margin = None,
      sheet_anchor = None,
      sheet_image = Some \<lparr>img_src = ''grid.png'', img_width = 32, img_height = 40\<rparr>\<rparr>"

text \<open>
  A multipack atlas of two descriptors: the first, for \<open>pack-0.png\<close>, has the frame
  \<open>a.png\<close>; the second, for \<open>pack-1.png\<close>, has the frames \<open>constructor\<close> and \<open>a.png\<close>.
\<close>

definition pack_0 :: packed where
  "pack_0 =
     \<lparr>meta = plain_meta\<lparr>app := Some ''texturepacker'', image_name := Some ''pack-0.png'',
                          sheet_size := Some (20, 10)\<rparr>,
      frames = Some [named_frame ''a.png'' 0 0 10 10]\<rparr>"

definition pack_1 :: packed where
  "pack_1 =
     \<lparr>meta = plain_meta\<lparr>app := Some ''texturepacker'', image_name := Some ''pack-1.png'',
                          sheet_size := Some (20, 10)\<rparr>,
      frames = Some [named_frame ''constructor'' 0 0 10 10, named_frame ''a.png'' 10 0 10 10]\<rparr>"

text \<open>An atlas whose only frame is named \<open>__proto__\<close>.\<close>

definition proto_pack :: packed where
  "proto_pack =
     \<lparr>meta = plain_meta\<lparr>app := Some ''texturepacker'', sheet_size := Some (20, 10)\<rparr>,
      frames = Some [named_frame ''__proto__'' 0 0 10 10]\<rparr>"

text \<open>The region object that \<open>parse\<close> builds for \<open>b.png\<close> in the atlas of the scenario.\<close>

definition region_b :: region where
  "region_b =
     frame_region (two_frames plain_meta) (named_frame ''b.png'' 10 0 10 10) ''b.png''
       \<lparr>rect_x = 10, rect_y = 0, rect_w = 10, rect_h = 10\<rparr>"

text \<open>
  The round trip of a uv rectangle \<open>[u0, v0, u1, v1]\<close>, in the words of the property:
  \<open>u0 * W\<close>, \<open>v0 * H\<close>, \<open>(u1 - u0) * W\<close> and \<open>(v1 - v0) * H\<close>, with the arithmetic of
  JavaScript numbers: a product or difference with \<open>NaN\<close> is \<open>NaN\<close>, as are the
  difference of two equal infinities and the product of an infinity and zero.
\<close>

fun js_sub :: "rat jsnum \<Rightarrow> rat jsnum \<Rightarrow> rat jsnum" where
  "js_sub (Num a) (Num b) = Num (a - b)"
| "js_sub NaN _ = NaN"
| "js_sub _ NaN = NaN"
| "js_sub PosInf PosInf = NaN"
| "js_sub NegInf NegInf = NaN"
| "js_sub PosInf _ = PosInf"
| "js_sub _ NegInf = PosInf"
| "js_sub NegInf _ = NegInf"
| "js_sub _ PosInf = NegInf"

fun js_mul :: "rat jsnum \<Rightarrow> rat \<Rightarrow> rat jsnum" where
  "js_mul (Num a) b = Num (a * b)"
| "js_mul NaN b = NaN"
| "js_mul PosInf b = (if b = 0 then NaN else if 0 < b then PosInf else NegInf)"
| "js_mul NegInf b = (if b = 0 then NaN else if 0 < b then NegInf else PosInf)"

definition scale_back :: "rat jsnum list \<Rightarrow> int \<Rightarrow> int \<Rightarrow> rat jsnum list" where
  "scale_back uv W H =
     [js_mul (uv ! 0) (of_int W),
      js_mul (uv ! 1) (of_int H),
      js_mul (js_sub (uv ! 2) (uv ! 0)) (of_int W),
      js_mul (js_sub (uv ! 3) (uv ! 1)) (of_int H)]"

text \<open>
  The values of a \<open>uvs\<close> array as stored with a rounding \<open>rnd\<close> of the finite ones, and a
  rounding whose relative error is \<open>2^-24\<close> at every value.
\<close>

definition stored :: "(rat \<Rightarrow> rat) \<Rightarrow> rat jsnum list \<Rightarrow> rat jsnum list" where
  "stored rnd uv = map (map_jsnum rnd) uv"

definition skewed :: "rat \<Rightarrow> rat" where
  "skewed q = q + q / 2 ^ 24"

section \<open>Properties of GLShader\<close>

lemma inherited_toString: "inherited ''toString''"
  by (simp add: inherited_def object_prototype_names_def)

text \<open>
  C9, as stated, fails in two ways. After \<open>destroy()\<close> the attribute table is \<open>null\<close> and
  the lookup raises a \<open>TypeError\<close>, for every shader and every name. And on a shader that
  is intact, a name that is not in the table but is inherited by it from
  \<open>Object.prototype\<close>, such as \<open>toString\<close>, yields the inherited value and not \<open>-1\<close>.
\<close>

theorem getAttribLocation_raises_or_inherits:
  "(\<forall>this nm. getAttribLocation (destroy this) nm = Inl TypeError)
   \<and> getAttribLocation (destroy quad_shader) ''aVertex'' = Inl TypeError
   \<and> attributes quad_shader = Some [''aVertex'' \<mapsto> 0]
   \<and> getAttribLocation quad_shader ''toString'' = Inr Inherited_value"
  by (simp add: getAttribLocation_def destroy_def quad_shader_def inherited_toString)

text \<open>
  C9, amended: for every shader whose attribute table is in place (one that has not been
  destroyed) and every name, \<open>getAttribLocation\<close> does not raise; it returns the location
  bound to the name when the table has one, and \<open>-1\<close> when the name is neither in the
  table nor one of the names that every object inherits from \<open>Object.prototype\<close>.
\<close>

theorem getAttribLocation_total:
  "attributes this = Some tbl \<Longrightarrow>
     (\<exists>v. getAttribLocation this nm = Inr v)
   \<and> (\<forall>loc. tbl nm = Some loc \<longrightarrow> getAttribLocation this nm = Inr (Location loc))
   \<and> (tbl nm = None \<and> \<not> inherited nm \<longrightarrow>
        getAttribLocation this nm = Inr (Location (- 1)))"
  by (simp add: getAttribLocation_def split: option.split)

theorem getAttribLocation_total_witness:
  "attributes quad_shader = Some [''aVertex'' \<mapsto> 0]
   \<and> getAttribLocation quad_shader ''aVertex'' = Inr (Location 0)
   \<and> \<not> inherited ''aColor''
   \<and> getAttribLocation quad_shader ''aColor'' = Inr (Location (- 1))"
  using getAttribLocation_total [of quad_shader "[''aVertex'' \<mapsto> 0]" "''aVertex''"]
        getAttribLocation_total [of quad_shader "[''aVertex'' \<mapsto> 0]" "''aColor''"]
  by (simp add: quad_shader_def inherited_def object_prototype_names_def)

text \<open>
  The error of \<open>setUniform\<close> for a name that reads as \<open>undefined\<close> in the table, and
  what it does with a value that the uniform's accessor rejects.
\<close>

lemma setUniform_undefined_message:
  "uniforms this = Some t \<Longrightarrow> \<not> uniform_defined eng t nm \<Longrightarrow>
     setUniform eng this nm v =
       Inl (Error (''undefined ('' @ nm @ '') uniform for shader [object Object]''))"
  by (simp add: setUniform_def shader_to_string_def)

lemma setUniform_rejected:
  "uniforms this = Some t \<Longrightarrow> accessors t nm = Some u \<Longrightarrow> v \<noteq> JNull \<Longrightarrow>
   setter u (uniform_value v) = Some err \<Longrightarrow>
     setUniform eng this nm v = Inl err"
  by (cases v)
     (auto simp: setUniform_def uniform_defined_def uniform_assign_def uniform_value_def
           split: option.splits)

text \<open>
  C3, as stated, fails in several ways, whatever a foreign prototype would do. On the
  uniform \<open>uColor\<close>, the value \<open>null\<close> raises a \<open>TypeError\<close> (\<open>typeof null\<close> is \<open>"object"\<close>,
  so the source reads \<open>null.toArray\<close>), and so does a value that the uniform's accessor
  rejects, here \<open>undefined\<close>. The name \<open>toString\<close> is not a uniform, yet the table
  inherits it: \<open>setUniform\<close> does not fail and the table gets a property of that name.
  For a name that the table does not have, two different shaders fail with the same
  message, which therefore identifies neither. And after \<open>destroy()\<close> every call raises
  a \<open>TypeError\<close>.
\<close>

theorem setUniform_raises_or_accepts:
  "\<forall>eng.
      setUniform eng quad_shader ''uColor'' JNull = Inl TypeError
    \<and> setUniform eng quad_shader ''uColor'' JUndefined = Inl TypeError
    \<and> accessors color_table ''toString'' = None
    \<and> setUniform eng quad_shader ''toString'' (JNumber 1) =
        Inr (quad_shader\<lparr>uniforms :=
               Some (color_table\<lparr>properties := [''toString'' \<mapsto> JNumber 1]\<rparr>)\<rparr>)
    \<and> quad_shader \<noteq> line_shader
    \<and> setUniform eng quad_shader ''uColour'' (JNumber 1) =
        Inl (Error ''undefined (uColour) uniform for shader [object Object]'')
    \<and> setUniform eng line_shader ''uColour'' (JNumber 1) =
        Inl (Error ''undefined (uColour) uniform for shader [object Object]'')
    \<and> (\<forall>this nm v. setUniform eng (destroy this) nm v = Inl TypeError)"
  by (simp add: setUniform_def uniform_defined_def uniform_assign_def inherits_def
        quad_shader_def line_shader_def color_table_def color_uniform_def vector_setter_def
        destroy_def shader_to_string_def inherited_def object_prototype_names_def)

text \<open>
  C3, amended: for every shader whose uniform table is in place, a name under which the
  table has no property of its own and inherits none makes \<open>setUniform\<close> fail with an
  error whose message names the uniform: it starts with
  \<open>undefined (<name>) uniform for shader\<close>. A name that is a uniform of the table, with
  a value other than \<open>null\<close> that the uniform's accessor accepts, makes it succeed, and
  the only change is that the uniform is assigned the value, or the result of its
  \<open>toArray\<close> method when the value is an object that has one.
\<close>

theorem setUniform_known_unknown:
  "uniforms this = Some t \<Longrightarrow>
     (accessors t nm = None \<and> properties t nm = None \<and> \<not> inherits eng t nm \<longrightarrow>
        (\<exists>rest. setUniform eng this nm v =
           Inl (Error (''undefined ('' @ nm @ '') uniform for shader '' @ rest))))
   \<and> (\<forall>u. accessors t nm = Some u \<and> v \<noteq> JNull \<and> setter u (uniform_value v) = None \<longrightarrow>
        setUniform eng this nm v =
          Inr (this\<lparr>uniforms :=
                 Some (t\<lparr>accessors := (accessors t)(nm \<mapsto> u\<lparr>assigned := uniform_value v\<rparr>)\<rparr>)\<rparr>))"
  by (cases v)
     (auto simp: setUniform_def uniform_defined_def uniform_assign_def uniform_value_def
           split: option.splits)

theorem setUniform_known_unknown_witness:
  "uniforms quad_shader = Some color_table
   \<and> accessors color_table ''uColour'' = None
   \<and> properties color_table ''uColour'' = None
   \<and> \<not> inherits bare_engine color_table ''uColour''
   \<and> (\<exists>rest. setUniform bare_engine quad_shader ''uColour'' (JNumber 1) =
         Inl (Error (''undefined (uColour) uniform for shader '' @ rest)))
   \<and> accessors color_table ''uColor'' = Some color_uniform
   \<and> setter color_uniform (JArray [1, 0, 0, 1]) = None
   \<and> setUniform bare_engine quad_shader ''uColor'' (JObject (Some (JArray [1, 0, 0, 1]))) =
       Inr (quad_shader\<lparr>uniforms :=
              Some (color_table\<lparr>accessors :=
                      [''uColor'' \<mapsto> color_uniform\<lparr>assigned := JArray [1, 0, 0, 1]\<rparr>]\<rparr>)\<rparr>)"
proof -
  have u: "uniforms quad_shader = Some color_table"
    by (simp add: quad_shader_def)
  have a: "accessors color_table ''uColour'' = None" "properties color_table ''uColour'' = None"
    "\<not> inherits bare_engine color_table ''uColour''"
    "accessors color_table ''uColor'' = Some color_uniform"
    by (simp_all add: color_table_def inherits_def inherited_def object_prototype_names_def)
  have s: "setter color_uniform (uniform_value (JObject (Some (JArray [1, 0, 0, 1])))) = None"
    "uniform_value (JObject (Some (JArray [1, 0, 0, 1]))) = JArray [1, 0, 0, 1]"
    by (simp_all add: color_uniform_def vector_setter_def uniform_value_def)
  note one = setUniform_known_unknown [OF u, of "''uColour''" bare_engine "JNumber 1"]
  note two = setUniform_known_unknown [OF u, of "''uColor''" bare_engine "JObject (Some (JArray [1, 0, 0, 1]))"]
  have first: "\<exists>rest. setUniform bare_engine quad_shader ''uColour'' (JNumber 1) =
         Inl (Error (''undefined (uColour) uniform for shader '' @ rest))"
    using conjunct1 [OF one] a by simp
  have second: "setUniform bare_engine quad_shader ''uColor'' (JObject (Some (JArray [1, 0, 0, 1]))) =
       Inr (quad_shader\<lparr>uniforms :=
              Some (color_table\<lparr>accessors :=
                      (accessors color_table)(''uColor'' \<mapsto>
                         color_uniform\<lparr>assigned := uniform_value (JObject (Some (JArray [1, 0, 0, 1])))\<rparr>)\<rparr>)\<rparr>)"
    using conjunct2 [OF two] a s by simp
  have "(accessors color_table)(''uColor'' \<mapsto> color_uniform\<lparr>assigned := JArray [1, 0, 0, 1]\<rparr>)
          = [''uColor'' \<mapsto> color_uniform\<lparr>assigned := JArray [1, 0, 0, 1]\<rparr>]"
    by (simp add: color_table_def)
  with first second u a s show ?thesis by simp
qed

section \<open>Properties of TextureAtlas\<close>

subsection \<open>Dictionaries and the store\<close>

lemma deref_fresh: "deref (hp @ reg # rest) (length hp) = Some reg"
  by (simp add: deref_def)

lemma table_get_set_same: "table_get hp (table_set t nm r) nm = Prop_region r"
  by (simp add: table_get_def table_set_def)

lemma table_set_twice: "table_set (table_set t k r) k r = table_set t k r"
  by (simp add: table_set_def)

lemma region_property_not_region: "region_property reg nm \<noteq> Some (Prop_region r)"
  by (auto simp: region_property_def split: option.splits)

text \<open>
  A name reads as a region exactly when it is an own key, or is \<open>__proto__\<close> once a
  region is the prototype.
\<close>

lemma table_get_region:
  "table_get hp t nm = Prop_region r \<longleftrightarrow>
     (if nm = ''__proto__'' then proto t = Some r else own t nm = Some r)"
proof (cases "nm = ''__proto__''")
  case True
  then show ?thesis by (simp add: table_get_def split: option.splits)
next
  case False
  show ?thesis
  proof (cases "own t nm")
    case (Some a)
    with False show ?thesis by (simp add: table_get_def)
  next
    case None
    have "(case proto t of None \<Rightarrow> None
           | Some p \<Rightarrow> (case deref hp p of None \<Rightarrow> None | Some reg \<Rightarrow> region_property reg nm))
          \<noteq> Some (Prop_region r)"
      by (simp add: region_property_not_region split: option.splits)
    with False None show ?thesis
      by (auto simp: table_get_def split: option.splits)
  qed
qed




lemma coordinate_key_comma: "CHR '','' \<in> set (coordinate_key reg w h)"
  by (simp add: coordinate_key_def Let_def)

lemma coordinate_key_not_proto: "coordinate_key reg w h \<noteq> ''__proto__''"
proof
  assume "coordinate_key reg w h = ''__proto__''"
  with coordinate_key_comma [of reg w h] show False by simp
qed

lemma table_get_region_stable:
  "table_get hp t nm = Prop_region r \<Longrightarrow>
     table_get hp' (table_set t (coordinate_key reg w h) r) nm = Prop_region r"
  using coordinate_key_not_proto [of reg w h]
  by (auto simp: table_get_region table_set_def)

lemma addUVs_fresh:
  "addUVs e (hp @ [reg]) (table_set atlas nm (length hp)) nm w h =
     (if gl e
      then Inr (Some (compute_uvs reg w h), with_key e atlas nm reg w h (length hp),
                hp @ [reg\<lparr>uvs := Some (compute_uvs reg w h)\<rparr>])
      else Inr (uvs reg, with_key e atlas nm reg w h (length hp), hp @ [reg]))"
  by (simp add: addUVs_def table_get_set_same deref_fresh Let_def with_key_def)



subsection \<open>parse\<close>

lemma parse_frame_named:
  "filename f = Some fname \<Longrightarrow> frame f = Some s \<Longrightarrow> sheet_size (meta data) = Some (w, h) \<Longrightarrow>
     parse_frame e data f atlas hp =
       Inr (with_key e atlas fname (frame_region data f fname s) w h (length hp),
            hp @ [with_uvs e (frame_region data f fname s) w h])"
  by (simp add: parse_frame_def addUVs_fresh with_uvs_def)









lemma int_to_string_10: "int_to_string 10 = ''10''"
  by (simp add: int_to_string_def digits.simps)
lemma int_to_string_20: "int_to_string 20 = ''20''"
  by (simp add: int_to_string_def digits.simps)
lemma int_to_string_0: "int_to_string 0 = ''0''"
  by (simp add: int_to_string_def digits.simps)

lemma table_get_own:
  "nm \<noteq> ''__proto__'' \<Longrightarrow> own t nm = Some r \<Longrightarrow> table_get hp t nm = Prop_region r"
  by (simp add: table_get_region)

lemma table_get_undefined:
  "nm \<noteq> ''__proto__'' \<Longrightarrow> own t nm = None \<Longrightarrow> proto t = None \<Longrightarrow> \<not> inherited nm \<Longrightarrow>
     table_get hp t nm = Prop_undefined"
  by (simp add: table_get_def)

lemma parse_two_frames:
  assumes "gl e"
  shows "\<exists>tbl ra rb. parse e hp (two_frames m) = Inr (tbl, hp @ [ra, rb])
     \<and> own tbl ''a.png'' = Some (length hp) \<and> own tbl ''b.png'' = Some (Suc (length hp))
     \<and> own tbl ''0,0,10,10'' = None \<and> own tbl ''0,0,20,10'' = Some (length hp)
     \<and> proto tbl = None
     \<and> uvs ra = Some [Num 0, Num 0, Num (1 / 2), Num 1]
     \<and> uvs rb = Some [Num (1 / 2), Num 0, Num 1, Num 1]"
proof -
  let ?fa = "named_frame ''a.png'' 0 0 10 10"
  let ?fb = "named_frame ''b.png'' 10 0 10 10"
  let ?sa = "\<lparr>rect_x = 0, rect_y = 0, rect_w = 10, rect_h = 10\<rparr>"
  let ?sb = "\<lparr>rect_x = 10, rect_y = 0, rect_w = 10, rect_h = 10\<rparr>"
  let ?ra = "frame_region (two_frames m) ?fa ''a.png'' ?sa"
  let ?rb = "frame_region (two_frames m) ?fb ''b.png'' ?sb"
  let ?t1 = "with_key e empty_table ''a.png'' ?ra 20 10 (length hp)"
  let ?t2 = "with_key e ?t1 ''b.png'' ?rb 20 10 (Suc (length hp))"
  have sz: "sheet_size (meta (two_frames m)) = Some (20, 10)"
    by (simp add: two_frames_def)
  have ka: "coordinate_key ?ra 20 10 = ''0,0,20,10''"
    by (simp add: coordinate_key_def frame_region_def int_to_string_0 int_to_string_10 int_to_string_20)
  have kb: "coordinate_key ?rb 20 10 = ''10,0,20,10''"
    by (simp add: coordinate_key_def frame_region_def int_to_string_0 int_to_string_10 int_to_string_20)
  have ua: "compute_uvs ?ra 20 10 = [Num 0, Num 0, Num (1 / 2), Num 1]"
    by (simp add: compute_uvs_def frame_region_def)
  have ub: "compute_uvs ?rb 20 10 = [Num (1 / 2), Num 0, Num 1, Num 1]"
    by (simp add: compute_uvs_def frame_region_def)
  have fa: "filename ?fa = Some ''a.png''" "frame ?fa = Some ?sa"
    and fb: "filename ?fb = Some ''b.png''" "frame ?fb = Some ?sb"
    by (simp_all add: named_frame_def)
  have a: "parse_frame e (two_frames m) ?fa empty_table hp =
             Inr (?t1, hp @ [with_uvs e ?ra 20 10])"
    by (rule parse_frame_named [OF fa sz])
  have b: "parse_frame e (two_frames m) ?fb ?t1 (hp @ [with_uvs e ?ra 20 10]) =
             Inr (?t2, hp @ [with_uvs e ?ra 20 10, with_uvs e ?rb 20 10])"
    using parse_frame_named [OF fb sz, of e ?t1 "hp @ [with_uvs e ?ra 20 10]"] by simp
  have p: "parse e hp (two_frames m) =
             Inr (?t2, hp @ [with_uvs e ?ra 20 10, with_uvs e ?rb 20 10])"
    using a b by (simp add: parse_def two_frames_def)
  have t: "own ?t2 ''a.png'' = Some (length hp)" "own ?t2 ''b.png'' = Some (Suc (length hp))"
    "own ?t2 ''0,0,10,10'' = None" "own ?t2 ''0,0,20,10'' = Some (length hp)"
    "proto ?t2 = None"
    using assms by (simp_all add: with_key_def table_set_def empty_table_def ka kb)
  have u: "uvs (with_uvs e ?ra 20 10) = Some [Num 0, Num 0, Num (1 / 2), Num 1]"
    "uvs (with_uvs e ?rb 20 10) = Some [Num (1 / 2), Num 0, Num 1, Num 1]"
    using assms by (simp_all add: with_uvs_def ua ub)
  show ?thesis
  proof (intro exI)
    show "parse e hp (two_frames m) =
             Inr (?t2, hp @ [with_uvs e ?ra 20 10, with_uvs e ?rb 20 10])
     \<and> own ?t2 ''a.png'' = Some (length hp) \<and> own ?t2 ''b.png'' = Some (Suc (length hp))
     \<and> own ?t2 ''0,0,10,10'' = None \<and> own ?t2 ''0,0,20,10'' = Some (length hp)
     \<and> proto ?t2 = None
     \<and> uvs (with_uvs e ?ra 20 10) = Some [Num 0, Num 0, Num (1 / 2), Num 1]
     \<and> uvs (with_uvs e ?rb 20 10) = Some [Num (1 / 2), Num 0, Num 1, Num 1]"
      using p t u by (intro conjI)
  qed
qed

subsection \<open>addUVs\<close>

lemma compute_uvs_uvs_update: "compute_uvs (reg\<lparr>uvs := x\<rparr>) w h = compute_uvs reg w h"
  by (simp add: compute_uvs_def)

lemma coordinate_key_uvs_update: "coordinate_key (reg\<lparr>uvs := x\<rparr>) w h = coordinate_key reg w h"
  by (simp add: coordinate_key_def)

lemma addUVs_region:
  "table_get hp atlas nm = Prop_region r \<Longrightarrow> deref hp r = Some reg \<Longrightarrow>
     addUVs e hp atlas nm w h =
       (if gl e
        then Inr (Some (compute_uvs reg w h), table_set atlas (coordinate_key reg w h) r,
                  hp[r := reg\<lparr>uvs := Some (compute_uvs reg w h)\<rparr>])
        else Inr (uvs reg, atlas, hp))"
  by (simp add: addUVs_def Let_def)

text \<open>
  C7: \<open>addUVs\<close> is idempotent. For a region that is in the dictionary the call returns;
  and when a call of \<open>addUVs\<close> returns, a second call for the same region with the same
  sheet dimensions, made on the dictionary and store that the first call left, returns
  the same \<open>uvs\<close> array, value for value, and changes nothing.
\<close>

theorem addUVs_idempotent:
  "(table_get hp atlas nm = Prop_region r \<and> r < length hp \<longrightarrow>
      (\<exists>u1 atlas1 hp1. addUVs e hp atlas nm w h = Inr (u1, atlas1, hp1)))
   \<and> (addUVs e hp atlas nm w h = Inr (u, atlas', hp') \<longrightarrow>
        addUVs e hp' atlas' nm w h = Inr (u, atlas', hp'))"
proof (intro conjI impI)
  assume "table_get hp atlas nm = Prop_region r \<and> r < length hp"
  then show "\<exists>u1 atlas1 hp1. addUVs e hp atlas nm w h = Inr (u1, atlas1, hp1)"
    by (simp add: addUVs_def deref_def Let_def)
next
  assume a: "addUVs e hp atlas nm w h = Inr (u, atlas', hp')"
  show "addUVs e hp' atlas' nm w h = Inr (u, atlas', hp')"
  proof (cases "table_get hp atlas nm")
    case Prop_undefined
    with a show ?thesis by (simp add: addUVs_def)
  next
    case Prop_null
    with a show ?thesis by (simp add: addUVs_def)
  next
    case Prop_other
    with a have "hp' = hp" "atlas' = atlas"
      by (simp_all add: addUVs_def split: if_splits)
    with a show ?thesis by simp
  next
    case (Prop_region q)
    with a obtain reg where d: "deref hp q = Some reg"
      by (cases "deref hp q") (simp_all add: addUVs_def)
    then have q: "q < length hp" by (simp add: deref_def split: if_splits)
    show ?thesis
    proof (cases "gl e")
      case False
      with a Prop_region d have "hp' = hp" "atlas' = atlas"
        by (simp_all add: addUVs_region)
      with a show ?thesis by simp
    next
      case True
      let ?uv = "compute_uvs reg w h"
      let ?reg = "reg\<lparr>uvs := Some ?uv\<rparr>"
      from a Prop_region d True have r: "u = Some ?uv"
        "atlas' = table_set atlas (coordinate_key reg w h) q" "hp' = hp[q := ?reg]"
        by (auto simp: addUVs_region)
      have g: "table_get hp' atlas' nm = Prop_region q"
        unfolding r by (rule table_get_region_stable [OF Prop_region])
      have d': "deref hp' q = Some ?reg"
        using q by (simp add: r deref_def)
      show ?thesis
        using True
        by (simp add: addUVs_region [OF g d'] compute_uvs_uvs_update coordinate_key_uvs_update)
           (simp add: r table_set_twice)
    qed
  qed
qed

theorem addUVs_idempotent_witness:
  "addUVs webgl_env [frame_region (two_frames plain_meta) (named_frame ''a.png'' 0 0 10 10) ''a.png''
                       \<lparr>rect_x = 0, rect_y = 0, rect_w = 10, rect_h = 10\<rparr>]
          (table_set empty_table ''a.png'' 0) ''a.png'' 20 10 =
     Inr (Some [Num 0, Num 0, Num (1 / 2), Num 1],
          table_set (table_set empty_table ''a.png'' 0) ''0,0,20,10'' 0,
          [with_uvs webgl_env (frame_region (two_frames plain_meta) (named_frame ''a.png'' 0 0 10 10) ''a.png''
                       \<lparr>rect_x = 0, rect_y = 0, rect_w = 10, rect_h = 10\<rparr>) 20 10])
   \<and> addUVs webgl_env
          [with_uvs webgl_env (frame_region (two_frames plain_meta) (named_frame ''a.png'' 0 0 10 10) ''a.png''
                       \<lparr>rect_x = 0, rect_y = 0, rect_w = 10, rect_h = 10\<rparr>) 20 10]
          (table_set (table_set empty_table ''a.png'' 0) ''0,0,20,10'' 0) ''a.png'' 20 10 =
     Inr (Some [Num 0, Num 0, Num (1 / 2), Num 1],
          table_set (table_set empty_table ''a.png'' 0) ''0,0,20,10'' 0,
          [with_uvs webgl_env (frame_region (two_frames plain_meta) (named_frame ''a.png'' 0 0 10 10) ''a.png''
                       \<lparr>rect_x = 0, rect_y = 0, rect_w = 10, rect_h = 10\<rparr>) 20 10])"
proof -
  let ?reg = "frame_region (two_frames plain_meta) (named_frame ''a.png'' 0 0 10 10) ''a.png''
                       \<lparr>rect_x = 0, rect_y = 0, rect_w = 10, rect_h = 10\<rparr>"
  let ?t1 = "table_set empty_table ''a.png'' 0"
  let ?t2 = "table_set ?t1 ''0,0,20,10'' 0"
  have first: "addUVs webgl_env [?reg] ?t1 ''a.png'' 20 10 =
     Inr (Some [Num 0, Num 0, Num (1 / 2), Num 1], ?t2, [with_uvs webgl_env ?reg 20 10])"
    using addUVs_fresh [of webgl_env "[]" ?reg empty_table "''a.png''" 20 10]
    by (simp add: webgl_env_def with_uvs_def with_key_def compute_uvs_def coordinate_key_def
          frame_region_def int_to_string_0 int_to_string_10 int_to_string_20)
  from conjunct2 [OF addUVs_idempotent [of "[?reg]" ?t1 "''a.png''" 0 webgl_env 20 10
         "Some [Num 0, Num 0, Num (1 / 2), Num 1]" ?t2 "[with_uvs webgl_env ?reg 20 10]"]] first
  have second: "addUVs webgl_env [with_uvs webgl_env ?reg 20 10] ?t2 ''a.png'' 20 10 =
     Inr (Some [Num 0, Num 0, Num (1 / 2), Num 1], ?t2, [with_uvs webgl_env ?reg 20 10])"
    by (rule mp)
  from first second show ?thesis by (rule conjI)
qed

subsection \<open>The constructor\<close>

lemma deref_second: "deref (hp @ [ra, rb]) (Suc (length hp)) = Some rb"
  by (simp add: deref_def nth_append)

lemma construct_two_frames:
  assumes "gl e" and "src \<noteq> None \<or> getImage e (image_name m) \<noteq> None"
  shows "\<exists>this wd1 tbl ra rb.
           new_TextureAtlas e wd (Some (One (Packed (two_frames m)))) src c = Inr (this, wd1)
         \<and> atlases this = [(or_default (image_name m) ''default'', tbl)]
         \<and> sources this =
             [(if src = None then image_name m else Some (or_default (image_name m) ''default''),
               if src = None then getImage e (image_name m) else resolve_src e src)]
         \<and> heap wd1 = heap wd @ [ra, rb]
         \<and> own tbl ''a.png'' = Some (length (heap wd))
         \<and> own tbl ''b.png'' = Some (Suc (length (heap wd)))
         \<and> own tbl ''0,0,10,10'' = None
         \<and> own tbl ''0,0,20,10'' = Some (length (heap wd))
         \<and> proto tbl = None
         \<and> uvs ra = Some [Num 0, Num 0, Num (1 / 2), Num 1]
         \<and> uvs rb = Some [Num (1 / 2), Num 0, Num 1, Num 1]"
proof -
  from parse_two_frames [OF assms(1), of "heap wd" m] obtain tbl ra rb where
    p: "parse e (heap wd) (two_frames m) = Inr (tbl, heap wd @ [ra, rb])"
    and t: "own tbl ''a.png'' = Some (length (heap wd))"
       "own tbl ''b.png'' = Some (Suc (length (heap wd)))"
       "own tbl ''0,0,10,10'' = None" "own tbl ''0,0,20,10'' = Some (length (heap wd))"
       "proto tbl = None"
    and u: "uvs ra = Some [Num 0, Num 0, Num (1 / 2), Num 1]"
       "uvs rb = Some [Num (1 / 2), Num 0, Num 1, Num 1]"
    by blast
  have m: "app (meta (two_frames m)) = Some ''texturepacker''"
    "image_name (meta (two_frames m)) = image_name m"
    by (simp_all add: two_frames_def)
  have inc: "str_includes ''texturepacker'' ''texturepacker''"
    by simp
  show ?thesis
  proof (cases src)
    case None
    with assms(2) obtain img where "getImage e (image_name m) = Some img" by auto
    with None p t u m inc show ?thesis
      by (simp add: new_TextureAtlas_def add_atlas_def set_format_def Map_length_def Let_def)
  next
    case (Some a)
    with p t u m inc show ?thesis
      by (simp add: new_TextureAtlas_def add_atlas_def set_format_def Map_length_def Let_def)
  qed
qed

text \<open>
  C4: under the WebGL renderer, with an image source given to the constructor or found
  by the loader, constructing the atlas of the scenario succeeds, and then \<open>getUVs("a.png")\<close>
  returns \<open>[0, 0, 0.5, 1]\<close> and \<open>getUVs("b.png")\<close> returns \<open>[0.5, 0, 1, 1]\<close>. The four values
  are exact in single precision.
\<close>

theorem two_frames_uvs:
  "gl e \<Longrightarrow> src \<noteq> None \<or> getImage e (image_name m) \<noteq> None \<Longrightarrow>
     \<exists>this wd1.
        new_TextureAtlas e wd (Some (One (Packed (two_frames m)))) src c = Inr (this, wd1)
      \<and> (\<exists>st. getUVs e (this, wd1) ''a.png'' =
                 Inr (Some [Num 0, Num 0, Num (1 / 2), Num 1], st))
      \<and> (\<exists>st. getUVs e (this, wd1) ''b.png'' =
                 Inr (Some [Num (1 / 2), Num 0, Num 1, Num 1], st))"
proof -
  assume "gl e" and "src \<noteq> None \<or> getImage e (image_name m) \<noteq> None"
  from construct_two_frames [OF this, of wd c] obtain this wd1 tbl ra rb where
    n: "new_TextureAtlas e wd (Some (One (Packed (two_frames m)))) src c = Inr (this, wd1)"
    and a: "atlases this = [(or_default (image_name m) ''default'', tbl)]"
    and h: "heap wd1 = heap wd @ [ra, rb]"
    and t: "own tbl ''a.png'' = Some (length (heap wd))"
       "own tbl ''b.png'' = Some (Suc (length (heap wd)))"
    and u: "uvs ra = Some [Num 0, Num 0, Num (1 / 2), Num 1]"
       "uvs rb = Some [Num (1 / 2), Num 0, Num 1, Num 1]"
    by blast
  have ga: "table_get (heap wd1) tbl ''a.png'' = Prop_region (length (heap wd))"
    using t(1) by (intro table_get_own) simp_all
  have gb: "table_get (heap wd1) tbl ''b.png'' = Prop_region (Suc (length (heap wd)))"
    using t(2) by (intro table_get_own) simp_all
  have "getUVs e (this, wd1) ''a.png'' = Inr (Some [Num 0, Num 0, Num (1 / 2), Num 1], this, wd1)"
    using a ga u deref_fresh [of "heap wd" ra "[rb]"]
    by (simp add: getUVs_def getRegion_def read_uvs_def h [symmetric])
  moreover
  have "getUVs e (this, wd1) ''b.png'' = Inr (Some [Num (1 / 2), Num 0, Num 1, Num 1], this, wd1)"
    using a gb u deref_second [of "heap wd" ra rb]
    by (simp add: getUVs_def getRegion_def read_uvs_def h [symmetric])
  ultimately show ?thesis using n by blast
qed

theorem two_frames_uvs_witness:
  "gl webgl_env
   \<and> (\<exists>this wd1.
        new_TextureAtlas webgl_env empty_world (Some (One (Packed (two_frames plain_meta))))
          (Some (SrcImage sheet_20x10)) None = Inr (this, wd1)
      \<and> (\<exists>st. getUVs webgl_env (this, wd1) ''a.png'' =
                 Inr (Some [Num 0, Num 0, Num (1 / 2), Num 1], st))
      \<and> (\<exists>st. getUVs webgl_env (this, wd1) ''b.png'' =
                 Inr (Some [Num (1 / 2), Num 0, Num 1, Num 1], st)))"
proof -
  have g: "gl webgl_env" by (simp add: webgl_env_def)
  have s: "Some (SrcImage sheet_20x10) \<noteq> None \<or> getImage webgl_env (image_name plain_meta) \<noteq> None"
    by simp
  from two_frames_uvs [OF g s, of empty_world None] g show ?thesis by simp
qed

lemma to_number_0: "to_number (Some ''0'') = Num 0"
  by (simp add: to_number_def trim_def is_space_def unsigned_number_def digit_value_def)

lemma to_number_10: "to_number (Some ''10'') = Num 10"
  by (simp add: to_number_def trim_def is_space_def unsigned_number_def digit_value_def)

text \<open>
  C6: the claim is that a region is also indexed under its raw coordinates
  \<open>"x,y,w,h"\<close>. The code builds the key from the offset and the sheet dimensions. In the
  atlas of the scenario the region \<open>a.png\<close>, at \<open>(0, 0)\<close> and 10 by 10, is indexed under
  \<open>"0,0,20,10"\<close> and not under \<open>"0,0,10,10"\<close>; \<open>getUVs("0,0,10,10")\<close> finds no region and
  registers a third one through \<open>addRegion\<close>.
\<close>

theorem raw_coordinate_key_not_indexed:
  "\<exists>this wd1.
      new_TextureAtlas webgl_env empty_world (Some (One (Packed (two_frames plain_meta))))
        (Some (SrcImage sheet_20x10)) None = Inr (this, wd1)
    \<and> length (heap wd1) = 2
    \<and> getRegion (heap wd1) this ''a.png'' None = Inr (Prop_region 0)
    \<and> getRegion (heap wd1) this ''0,0,20,10'' None = Inr (Prop_region 0)
    \<and> getRegion (heap wd1) this ''0,0,10,10'' None = Inr Prop_undefined
    \<and> (\<exists>u this2 wd2.
          getUVs webgl_env (this, wd1) ''0,0,10,10'' = Inr (u, this2, wd2)
        \<and> u = Some [Num 0, Num 0, Num (1 / 2), Num 1]
        \<and> length (heap wd2) = 3
        \<and> getRegion (heap wd2) this2 ''0,0,10,10'' None = Inr (Prop_region 2))"
proof -
  have g: "gl webgl_env" by (simp add: webgl_env_def)
  from construct_two_frames [OF g, of "Some (SrcImage sheet_20x10)" plain_meta empty_world None]
  obtain this wd1 tbl ra rb where
    n: "new_TextureAtlas webgl_env empty_world (Some (One (Packed (two_frames plain_meta))))
          (Some (SrcImage sheet_20x10)) None = Inr (this, wd1)"
    and a: "atlases this = [(''default'', tbl)]"
    and s: "sources this = [(Some ''default'', Some sheet_20x10)]"
    and h: "heap wd1 = [ra, rb]"
    and t: "own tbl ''a.png'' = Some 0" "own tbl ''0,0,10,10'' = None"
       "own tbl ''0,0,20,10'' = Some 0" "proto tbl = None"
    by (auto simp: empty_world_def plain_meta_def or_default_def resolve_src_def)
  let ?reg = "\<lparr>name = ''0,0,10,10'', texture = None, offset = (Num 0, Num 0),
                anchorPoint = None, trimmed = None, width = Num 10, height = Num 10,
                angle = Angle_zero, uvs = None\<rparr>"
  let ?tbl2 = "with_key webgl_env tbl ''0,0,10,10'' ?reg 20 10 2"
  let ?hp2 = "[ra, rb, ?reg\<lparr>uvs := Some (compute_uvs ?reg 20 10)\<rparr>]"
  have k: "coordinate_key ?reg 20 10 = ''0,0,20,10''"
    by (simp add: coordinate_key_def int_to_string_0 int_to_string_10 int_to_string_20)
  have ni: "\<not> inherited ''0,0,10,10''"
    by (simp add: inherited_def object_prototype_names_def)
  have g1: "table_get [ra, rb] tbl ''a.png'' = Prop_region 0"
    "table_get [ra, rb] tbl ''0,0,20,10'' = Prop_region 0"
    using t by (simp_all add: table_get_own)
  have g2: "table_get [ra, rb] tbl ''0,0,10,10'' = Prop_undefined"
    using t ni by (simp add: table_get_undefined)
  have g3: "table_get ?hp2 ?tbl2 ''0,0,10,10'' = Prop_region 2"
    using g by (simp add: with_key_def table_get_region table_set_def k)
  have ar: "addRegion webgl_env (this, wd1) ''0,0,10,10'' (Num 0) (Num 0) (Num 10) (Num 10) =
          Inr (Prop_region 2, this\<lparr>atlases := [(''default'', ?tbl2)]\<rparr>, wd1\<lparr>heap := ?hp2\<rparr>)"
    using a s h g g3 addUVs_fresh [of webgl_env "[ra, rb]" ?reg tbl "''0,0,10,10''" 20 10]
    by (simp add: addRegion_def getTexture_def webgl_env_def sheet_20x10_def numeral_2_eq_2)
  have gu: "getUVs webgl_env (this, wd1) ''0,0,10,10'' =
          Inr (Some (compute_uvs ?reg 20 10), this\<lparr>atlases := [(''default'', ?tbl2)]\<rparr>,
               wd1\<lparr>heap := ?hp2\<rparr>)"
    using a h g2 ar
    by (simp add: getUVs_def getRegion_def nth_opt_def to_number_0 to_number_10 read_uvs_def
          deref_def)
  have uv: "compute_uvs ?reg 20 10 = [Num 0, Num 0, Num (1 / 2), Num 1]"
    by (simp add: compute_uvs_def)
  show ?thesis
    using n a h g1 g2 g3 gu uv by (simp add: getRegion_def)
qed

text \<open>
  C2: the claim is that construction fails with "texture atlas format not supported"
  when no descriptor is of a supported format. The code does not: for a descriptor with
  neither \<open>meta\<close> nor the \<open>framewidth\<close>/\<open>frameheight\<close> pair, whatever the environment,
  the source and the cache flag, the constructor returns normally an atlas with no
  format, no source and an empty \<open>atlases\<close> map. The guard reads \<open>this.atlases.length\<close>,
  which a \<open>Map\<close> does not have.
\<close>

theorem unsupported_format_completes:
  "new_TextureAtlas e wd (Some (One Unrecognized)) src c =
     Inr (\<lparr>format = None, repeat = None, sources = [], atlases = []\<rparr>, wd)"
  by (simp add: new_TextureAtlas_def add_atlas_def Map_length_def Let_def)

subsection \<open>getRegion\<close>

text \<open>
  Without an atlas argument \<open>getRegion\<close> returns what the first dictionary yields that
  does not read as \<open>undefined\<close> under the name, whatever the later dictionaries hold.
\<close>

lemma first_region_first_match:
  "\<forall>p \<in> set pre. table_get hp (snd p) nm = Prop_undefined \<Longrightarrow>
   table_get hp tbl nm \<noteq> Prop_undefined \<Longrightarrow>
     first_region hp (pre @ (k, tbl) # post) nm = table_get hp tbl nm"
proof (induction pre)
  case Nil
  then show ?case by simp
next
  case (Cons p pre)
  obtain k0 t0 where p: "p = (k0, t0)" by (cases p)
  from Cons.prems(1) have "table_get hp t0 nm = Prop_undefined"
    and "\<forall>p \<in> set pre. table_get hp (snd p) nm = Prop_undefined"
    by (simp_all add: p)
  with Cons.IH Cons.prems(2) show ?case by (simp add: p)
qed

text \<open>
  A frame named \<open>__proto__\<close> becomes the prototype of its dictionary: the dictionary
  has no own key of that name, the name and the coordinate key read as the region, and
  the properties of the region read through the dictionary: \<open>name\<close> and \<open>uvs\<close> as
  values that are no regions, \<open>anchorPoint\<close> as \<open>null\<close>, on which \<open>getUVs\<close> raises.
\<close>

lemma proto_frame_lookups:
  "case new_TextureAtlas webgl_env empty_world (Some (One (Packed proto_pack)))
          (Some (SrcImage sheet_20x10)) None of
     Inl err \<Rightarrow> False
   | Inr (this, wd) \<Rightarrow>
       map (\<lambda>p. (own (snd p) ''__proto__'', proto (snd p))) (atlases this) = [(None, Some 0)]
     \<and> length (heap wd) = 1
     \<and> getRegion (heap wd) this ''__proto__'' None = Inr (Prop_region 0)
     \<and> getRegion (heap wd) this ''0,0,20,10'' None = Inr (Prop_region 0)
     \<and> map_sum id fst (getUVs webgl_env (this, wd) ''__proto__'') =
         Inr (Some [Num 0, Num 0, Num (1 / 2), Num 1])
     \<and> getRegion (heap wd) this ''name'' None = Inr Prop_other
     \<and> getRegion (heap wd) this ''uvs'' None = Inr Prop_other
     \<and> getRegion (heap wd) this ''toString'' None = Inr Prop_other
     \<and> getRegion (heap wd) this ''anchorPoint'' None = Inr Prop_null
     \<and> map_sum id fst (getUVs webgl_env (this, wd) ''anchorPoint'') = Inl TypeError
     \<and> getRegion (heap wd) this ''b.png'' None = Inr Prop_undefined"
  by code_simp

lemma multipack_constructor:
  "case new_TextureAtlas webgl_env empty_world (Some (Many [Packed pack_0, Packed pack_1]))
          (Some (SrcImage sheet_20x10)) None of
     Inl err \<Rightarrow> False
   | Inr (this, wd) \<Rightarrow>
       map fst (atlases this) = [''pack-0.png'', ''pack-1.png'']
     \<and> map (\<lambda>p. own (snd p) ''constructor'') (atlases this) = [None, Some 1]
     \<and> map name (heap wd) = [''a.png'', ''constructor'', ''a.png'']
     \<and> getRegion (heap wd) this ''constructor'' (Some ''pack-0.png'') = Inr Prop_other
     \<and> getRegion (heap wd) this ''constructor'' (Some ''pack-1.png'') = Inr (Prop_region 1)
     \<and> getRegion (heap wd) this ''constructor'' None = Inr Prop_other
     \<and> map_sum id fst (getUVs webgl_env (this, wd) ''constructor'') = Inr None
     \<and> getRegion (heap wd) this ''a.png'' (Some ''pack-1.png'') = Inr (Prop_region 2)
     \<and> getRegion (heap wd) this ''a.png'' None = Inr (Prop_region 0)"
  by code_simp

text \<open>
  C5: the claim is that \<open>getRegion(name)\<close> returns the region of the first sub-atlas
  that contains the name. The code does not when the name is one that every object
  inherits. In the multipack atlas built from \<open>pack_0\<close> and \<open>pack_1\<close> the region
  \<open>constructor\<close> is a frame of the second sub-atlas only, where the lookup by atlas name
  finds it; without an atlas argument \<open>getRegion("constructor")\<close> returns what the first
  dictionary inherits under that name from \<open>Object.prototype\<close>, which is no region, and
  \<open>getUVs("constructor")\<close> returns \<open>undefined\<close>. The name \<open>a.png\<close>, a frame of both
  sub-atlases, is found in the first.
\<close>

theorem getRegion_inherited_name:
  "\<exists>this wd.
      new_TextureAtlas webgl_env empty_world (Some (Many [Packed pack_0, Packed pack_1]))
        (Some (SrcImage sheet_20x10)) None = Inr (this, wd)
    \<and> map fst (atlases this) = [''pack-0.png'', ''pack-1.png'']
    \<and> map (\<lambda>p. own (snd p) ''constructor'') (atlases this) = [None, Some 1]
    \<and> map name (heap wd) = [''a.png'', ''constructor'', ''a.png'']
    \<and> getRegion (heap wd) this ''constructor'' (Some ''pack-0.png'') = Inr Prop_other
    \<and> getRegion (heap wd) this ''constructor'' (Some ''pack-1.png'') = Inr (Prop_region 1)
    \<and> getRegion (heap wd) this ''constructor'' None = Inr Prop_other
    \<and> map_sum id fst (getUVs webgl_env (this, wd) ''constructor'') = Inr None
    \<and> getRegion (heap wd) this ''a.png'' (Some ''pack-1.png'') = Inr (Prop_region 2)
    \<and> getRegion (heap wd) this ''a.png'' None = Inr (Prop_region 0)"
proof (cases "new_TextureAtlas webgl_env empty_world (Some (Many [Packed pack_0, Packed pack_1]))
          (Some (SrcImage sheet_20x10)) None")
  case (Inl err)
  with multipack_constructor show ?thesis by simp
next
  case (Inr st)
  obtain this wd where st: "st = (this, wd)" by (cases st)
  from multipack_constructor show ?thesis
    unfolding Inr st by (intro exI) simp
qed

subsection \<open>The round trip of the uv rectangle\<close>

lemma scaled_error:
  fixes r p W eps :: rat
  assumes "W \<noteq> 0" and "\<bar>r - p / W\<bar> \<le> eps * \<bar>p / W\<bar>"
  shows "\<bar>r * W - p\<bar> \<le> eps * \<bar>p\<bar>"
proof -
  have "r * W - p = (r - p / W) * W"
    using assms(1) by (simp add: field_simps)
  then have "\<bar>r * W - p\<bar> = \<bar>r - p / W\<bar> * \<bar>W\<bar>"
    by (simp add: abs_mult)
  also have "\<dots> \<le> (eps * \<bar>p / W\<bar>) * \<bar>W\<bar>"
    using assms(2) by (intro mult_right_mono) simp_all
  also have "\<dots> = eps * \<bar>p\<bar>"
    using assms(1) by (simp add: abs_divide)
  finally show ?thesis .
qed

lemma scaled_difference_error:
  fixes r0 r1 p0 p1 W eps :: rat
  assumes "W \<noteq> 0" and "\<bar>r0 - p0 / W\<bar> \<le> eps * \<bar>p0 / W\<bar>"
    and "\<bar>r1 - p1 / W\<bar> \<le> eps * \<bar>p1 / W\<bar>"
  shows "\<bar>(r1 - r0) * W - (p1 - p0)\<bar> \<le> eps * (\<bar>p0\<bar> + \<bar>p1\<bar>)"
proof -
  have "(r1 - r0) * W - (p1 - p0) = (r1 * W - p1) - (r0 * W - p0)"
    by (simp add: algebra_simps)
  then have "\<bar>(r1 - r0) * W - (p1 - p0)\<bar> \<le> \<bar>r1 * W - p1\<bar> + \<bar>r0 * W - p0\<bar>"
    by (simp add: abs_triangle_ineq4)
  also have "\<dots> \<le> eps * \<bar>p1\<bar> + eps * \<bar>p0\<bar>"
    using scaled_error [OF assms(1) assms(2)] scaled_error [OF assms(1) assms(3)]
    by (intro add_mono)
  finally show ?thesis by (simp add: algebra_simps)
qed

lemma compute_uvs_finite:
  "offset reg = (Num x, Num y) \<Longrightarrow> width reg = Num w \<Longrightarrow> height reg = Num h \<Longrightarrow>
   W \<noteq> 0 \<Longrightarrow> H \<noteq> 0 \<Longrightarrow>
     compute_uvs reg W H =
       [Num (of_int x / of_int W), Num (of_int y / of_int H),
        Num (of_int (x + w) / of_int W), Num (of_int (y + h) / of_int H)]"
  by (simp add: compute_uvs_def)

lemma unnamed_sprite_uvs:
  "map_sum id fst
     (getUVs webgl_env
        (projr (new_TextureAtlas webgl_env empty_world
                  (Some (One (Packed (two_frames plain_meta)))) (Some (SrcImage sheet_20x10)) None))
        ''sprite'') = Inr (Some [NaN, NaN, NaN, NaN])"
  by code_simp

text \<open>
  C8, as stated, fails for a sheet dimension of zero: registered under a sheet of 0 by 0,
  the region at \<open>(10, 0)\<close> of size 10 by 10 gets the uv rectangle
  \<open>[Infinity, NaN, Infinity, Infinity]\<close>, and scaling it back gives \<open>NaN\<close> four times.
  It also fails for a region whose offset and size are not finite: in the atlas of the
  scenario \<open>getUVs("sprite")\<close> registers a region of that name with offset and size
  \<open>NaN\<close>, whose uv rectangle is \<open>NaN\<close> four times, as is its scaling back by 20 and 10.
\<close>

theorem round_trip_fails:
  "offset region_b = (Num 10, Num 0) \<and> width region_b = Num 10 \<and> height region_b = Num 10
   \<and> addUVs webgl_env [region_b] (table_set empty_table ''b.png'' 0) ''b.png'' 0 0 =
       Inr (Some [PosInf, NaN, PosInf, PosInf],
            with_key webgl_env empty_table ''b.png'' region_b 0 0 0,
            [region_b\<lparr>uvs := Some [PosInf, NaN, PosInf, PosInf]\<rparr>])
   \<and> scale_back [PosInf, NaN, PosInf, PosInf] 0 0 = [NaN, NaN, NaN, NaN]
   \<and> map_sum id fst
        (getUVs webgl_env
           (projr (new_TextureAtlas webgl_env empty_world
                     (Some (One (Packed (two_frames plain_meta))))
                     (Some (SrcImage sheet_20x10)) None))
           ''sprite'') = Inr (Some [NaN, NaN, NaN, NaN])
   \<and> scale_back [NaN, NaN, NaN, NaN] 20 10 = [NaN, NaN, NaN, NaN]"
proof -
  have o: "offset region_b = (Num 10, Num 0)" "width region_b = Num 10"
    "height region_b = Num 10"
    by (simp_all add: region_b_def frame_region_def)
  have c: "compute_uvs region_b 0 0 = [PosInf, NaN, PosInf, PosInf]"
    by (simp add: compute_uvs_def o)
  have a: "addUVs webgl_env [region_b] (table_set empty_table ''b.png'' 0) ''b.png'' 0 0 =
       Inr (Some [PosInf, NaN, PosInf, PosInf],
            with_key webgl_env empty_table ''b.png'' region_b 0 0 0,
            [region_b\<lparr>uvs := Some [PosInf, NaN, PosInf, PosInf]\<rparr>])"
    using addUVs_fresh [of webgl_env "[]" region_b empty_table "''b.png''" 0 0]
    by (simp add: c webgl_env_def)
  have s: "scale_back [PosInf, NaN, PosInf, PosInf] 0 0 = [NaN, NaN, NaN, NaN]"
    by (simp add: scale_back_def)
  have n: "scale_back [NaN, NaN, NaN, NaN] 20 10 = [NaN, NaN, NaN, NaN]"
    by (simp add: scale_back_def)
  from o a s unnamed_sprite_uvs n show ?thesis by (intro conjI)
qed

text \<open>
  C8, amended: under WebGL, for every region with a finite pixel offset \<open>(x, y)\<close> and size
  \<open>(w, h)\<close> registered under sheet dimensions \<open>W\<close> and \<open>H\<close> that are not zero, \<open>addUVs\<close>
  returns and stores a uv rectangle whose scaling back by the sheet dimensions is
  \<open>x\<close>, \<open>y\<close>, \<open>w\<close> and \<open>h\<close>, exactly. When the four values are stored with a rounding of
  relative error at most \<open>eps\<close>, the scaled-back values differ from \<open>x\<close> and \<open>y\<close> by at
  most \<open>eps * |x|\<close> and \<open>eps * |y|\<close>, and from \<open>w\<close> and \<open>h\<close> by at most
  \<open>eps * (|x| + |x + w|)\<close> and \<open>eps * (|y| + |y + h|)\<close>.
\<close>

theorem uv_round_trip:
  assumes "gl e" and "table_get hp atlas nm = Prop_region r" and "deref hp r = Some reg"
    and "offset reg = (Num x, Num y)" and "width reg = Num w" and "height reg = Num h"
    and "W \<noteq> 0" and "H \<noteq> 0"
  shows "\<exists>uv atlas' hp'.
           addUVs e hp atlas nm W H = Inr (Some uv, atlas', hp')
         \<and> deref hp' r = Some (reg\<lparr>uvs := Some uv\<rparr>)
         \<and> scale_back uv W H =
             [Num (of_int x), Num (of_int y), Num (of_int w), Num (of_int h)]
         \<and> ((\<forall>q \<in> set uv. \<forall>v. q = Num v \<longrightarrow> \<bar>rnd v - v\<bar> \<le> eps * \<bar>v\<bar>) \<longrightarrow>
              (\<exists>a b c d.
                  scale_back (stored rnd uv) W H = [Num a, Num b, Num c, Num d]
                \<and> \<bar>a - of_int x\<bar> \<le> eps * \<bar>of_int x\<bar>
                \<and> \<bar>b - of_int y\<bar> \<le> eps * \<bar>of_int y\<bar>
                \<and> \<bar>c - of_int w\<bar> \<le> eps * (\<bar>of_int x\<bar> + \<bar>of_int (x + w)\<bar>)
                \<and> \<bar>d - of_int h\<bar> \<le> eps * (\<bar>of_int y\<bar> + \<bar>of_int (y + h)\<bar>)))"
proof -
  let ?W = "of_int W :: rat" and ?H = "of_int H :: rat"
  let ?u0 = "of_int x / ?W" and ?v0 = "of_int y / ?H"
  let ?u1 = "of_int (x + w) / ?W" and ?v1 = "of_int (y + h) / ?H"
  let ?uv = "[Num ?u0, Num ?v0, Num ?u1, Num ?v1]"
  have nz: "?W \<noteq> 0" "?H \<noteq> 0" using assms(7,8) by simp_all
  have c: "compute_uvs reg W H = ?uv"
    using assms(4-8) by (rule compute_uvs_finite)
  from assms(3) have r: "r < length hp" by (simp add: deref_def split: if_splits)
  have run: "addUVs e hp atlas nm W H =
      Inr (Some ?uv, table_set atlas (coordinate_key reg W H) r, hp[r := reg\<lparr>uvs := Some ?uv\<rparr>])"
    using assms(1) by (simp add: addUVs_region [OF assms(2,3)] c)
  have st: "deref (hp[r := reg\<lparr>uvs := Some ?uv\<rparr>]) r = Some (reg\<lparr>uvs := Some ?uv\<rparr>)"
    using r by (simp add: deref_def)
  have exact: "scale_back ?uv W H =
             [Num (of_int x), Num (of_int y), Num (of_int w), Num (of_int h)]"
    using nz by (simp add: scale_back_def field_simps)
  have rounded: "\<exists>a b c d.
                  scale_back (stored rnd ?uv) W H = [Num a, Num b, Num c, Num d]
                \<and> \<bar>a - of_int x\<bar> \<le> eps * \<bar>of_int x\<bar>
                \<and> \<bar>b - of_int y\<bar> \<le> eps * \<bar>of_int y\<bar>
                \<and> \<bar>c - of_int w\<bar> \<le> eps * (\<bar>of_int x\<bar> + \<bar>of_int (x + w)\<bar>)
                \<and> \<bar>d - of_int h\<bar> \<le> eps * (\<bar>of_int y\<bar> + \<bar>of_int (y + h)\<bar>)"
    if rn: "\<forall>q \<in> set ?uv. \<forall>v. q = Num v \<longrightarrow> \<bar>rnd v - v\<bar> \<le> eps * \<bar>v\<bar>"
  proof -
    from rn have e: "\<bar>rnd ?u0 - ?u0\<bar> \<le> eps * \<bar>?u0\<bar>" "\<bar>rnd ?v0 - ?v0\<bar> \<le> eps * \<bar>?v0\<bar>"
      "\<bar>rnd ?u1 - ?u1\<bar> \<le> eps * \<bar>?u1\<bar>" "\<bar>rnd ?v1 - ?v1\<bar> \<le> eps * \<bar>?v1\<bar>"
      by simp_all
    have s: "scale_back (stored rnd ?uv) W H =
        [Num (rnd ?u0 * ?W), Num (rnd ?v0 * ?H),
         Num ((rnd ?u1 - rnd ?u0) * ?W), Num ((rnd ?v1 - rnd ?v0) * ?H)]"
      by (simp add: scale_back_def stored_def)
    have a: "\<bar>rnd ?u0 * ?W - of_int x\<bar> \<le> eps * \<bar>of_int x\<bar>"
      by (rule scaled_error [OF nz(1) e(1)])
    have b: "\<bar>rnd ?v0 * ?H - of_int y\<bar> \<le> eps * \<bar>of_int y\<bar>"
      by (rule scaled_error [OF nz(2) e(2)])
    have "\<bar>(rnd ?u1 - rnd ?u0) * ?W - (of_int (x + w) - of_int x)\<bar>
            \<le> eps * (\<bar>of_int x\<bar> + \<bar>of_int (x + w)\<bar>)"
      by (rule scaled_difference_error [OF nz(1) e(1) e(3)])
    then have c: "\<bar>(rnd ?u1 - rnd ?u0) * ?W - of_int w\<bar>
            \<le> eps * (\<bar>of_int x\<bar> + \<bar>of_int (x + w)\<bar>)"
      by simp
    have "\<bar>(rnd ?v1 - rnd ?v0) * ?H - (of_int (y + h) - of_int y)\<bar>
            \<le> eps * (\<bar>of_int y\<bar> + \<bar>of_int (y + h)\<bar>)"
      by (rule scaled_difference_error [OF nz(2) e(2) e(4)])
    then have d: "\<bar>(rnd ?v1 - rnd ?v0) * ?H - of_int h\<bar>
            \<le> eps * (\<bar>of_int y\<bar> + \<bar>of_int (y + h)\<bar>)"
      by simp
    from s a b c d show ?thesis by blast
  qed
  have imp: "(\<forall>q \<in> set ?uv. \<forall>v. q = Num v \<longrightarrow> \<bar>rnd v - v\<bar> \<le> eps * \<bar>v\<bar>) \<longrightarrow>
              (\<exists>a b c d.
                  scale_back (stored rnd ?uv) W H = [Num a, Num b, Num c, Num d]
                \<and> \<bar>a - of_int x\<bar> \<le> eps * \<bar>of_int x\<bar>
                \<and> \<bar>b - of_int y\<bar> \<le> eps * \<bar>of_int y\<bar>
                \<and> \<bar>c - of_int w\<bar> \<le> eps * (\<bar>of_int x\<bar> + \<bar>of_int (x + w)\<bar>)
                \<and> \<bar>d - of_int h\<bar> \<le> eps * (\<bar>of_int y\<bar> + \<bar>of_int (y + h)\<bar>))"
    by (rule impI) (rule rounded)
  show ?thesis
    by (rule exI [of _ ?uv], rule exI [of _ "table_set atlas (coordinate_key reg W H) r"],
        rule exI [of _ "hp[r := reg\<lparr>uvs := Some ?uv\<rparr>]"])
       (intro conjI run st exact imp)
qed

lemma skewed_error: "\<bar>skewed v - v\<bar> \<le> (1 / 2 ^ 24) * \<bar>v\<bar>"
  by (simp add: skewed_def abs_divide)

theorem uv_round_trip_witness:
  "gl webgl_env
   \<and> table_get [region_b] (table_set empty_table ''b.png'' 0) ''b.png'' = Prop_region 0
   \<and> deref [region_b] 0 = Some region_b
   \<and> offset region_b = (Num 10, Num 0) \<and> width region_b = Num 10 \<and> height region_b = Num 10
   \<and> (\<exists>atlas' hp'.
         addUVs webgl_env [region_b] (table_set empty_table ''b.png'' 0) ''b.png'' 20 10 =
           Inr (Some [Num (1 / 2), Num 0, Num 1, Num 1], atlas', hp'))
   \<and> scale_back [Num (1 / 2), Num 0, Num 1, Num 1] 20 10 = [Num 10, Num 0, Num 10, Num 10]
   \<and> (\<exists>a b c d.
         scale_back (stored skewed [Num (1 / 2), Num 0, Num 1, Num 1]) 20 10 =
           [Num a, Num b, Num c, Num d]
       \<and> \<bar>a - 10\<bar> \<le> 10 / 2 ^ 24 \<and> \<bar>b - 0\<bar> \<le> 0
       \<and> \<bar>c - 10\<bar> \<le> 30 / 2 ^ 24 \<and> \<bar>d - 10\<bar> \<le> 10 / 2 ^ 24)"
proof -
  let ?t = "table_set empty_table ''b.png'' 0"
  let ?uv = "[Num (1 / 2), Num 0, Num 1, Num 1] :: rat jsnum list"
  have g: "gl webgl_env" by (simp add: webgl_env_def)
  have tg: "table_get [region_b] ?t ''b.png'' = Prop_region 0"
    by (rule table_get_set_same)
  have d: "deref [region_b] 0 = Some region_b"
    by (simp add: deref_def)
  have o: "offset region_b = (Num 10, Num 0)" and wd: "width region_b = Num 10"
    and ht: "height region_b = Num 10"
    by (simp_all add: region_b_def frame_region_def)
  have nz: "(20 :: int) \<noteq> 0" "(10 :: int) \<noteq> 0" by simp_all
  have c: "compute_uvs region_b 20 10 = ?uv"
    by (simp add: compute_uvs_finite [OF o wd ht nz])
  have run: "addUVs webgl_env [region_b] ?t ''b.png'' 20 10 =
      Inr (Some ?uv, table_set ?t (coordinate_key region_b 20 10) 0,
           [region_b\<lparr>uvs := Some ?uv\<rparr>])"
    using g by (simp add: addUVs_region [OF tg d] c)
  from uv_round_trip [where rnd = skewed and eps = "1 / 2 ^ 24", OF g tg d o wd ht nz]
  obtain uv atlas' hp' where
    r: "addUVs webgl_env [region_b] ?t ''b.png'' 20 10 = Inr (Some uv, atlas', hp')"
    and e: "scale_back uv 20 10 =
              [Num (of_int 10), Num (of_int 0), Num (of_int 10), Num (of_int 10)]"
    and t: "(\<forall>q \<in> set uv. \<forall>v. q = Num v \<longrightarrow> \<bar>skewed v - v\<bar> \<le> (1 / 2 ^ 24) * \<bar>v\<bar>) \<longrightarrow>
              (\<exists>a b c d.
                  scale_back (stored skewed uv) 20 10 = [Num a, Num b, Num c, Num d]
                \<and> \<bar>a - of_int 10\<bar> \<le> (1 / 2 ^ 24) * \<bar>of_int 10\<bar>
                \<and> \<bar>b - of_int 0\<bar> \<le> (1 / 2 ^ 24) * \<bar>of_int 0\<bar>
                \<and> \<bar>c - of_int 10\<bar> \<le> (1 / 2 ^ 24) * (\<bar>of_int 10\<bar> + \<bar>of_int (10 + 10)\<bar>)
                \<and> \<bar>d - of_int 10\<bar> \<le> (1 / 2 ^ 24) * (\<bar>of_int 0\<bar> + \<bar>of_int (0 + 10)\<bar>))"
    by blast
  from r run have uv: "uv = ?uv" by simp
  have "\<forall>q \<in> set uv. \<forall>v. q = Num v \<longrightarrow> \<bar>skewed v - v\<bar> \<le> (1 / 2 ^ 24) * \<bar>v\<bar>"
    using skewed_error by blast
  with t obtain a b c d where
    s: "scale_back (stored skewed uv) 20 10 = [Num a, Num b, Num c, Num d]"
    and b: "\<bar>a - of_int 10\<bar> \<le> (1 / 2 ^ 24) * \<bar>of_int 10\<bar>"
      "\<bar>b - of_int 0\<bar> \<le> (1 / 2 ^ 24) * \<bar>of_int 0\<bar>"
      "\<bar>c - of_int 10\<bar> \<le> (1 / 2 ^ 24) * (\<bar>of_int 10\<bar> + \<bar>of_int (10 + 10)\<bar>)"
      "\<bar>d - of_int 10\<bar> \<le> (1 / 2 ^ 24) * (\<bar>of_int 0\<bar> + \<bar>of_int (0 + 10)\<bar>)"
    by blast
  have rounded: "\<exists>a b c d.
         scale_back (stored skewed ?uv) 20 10 = [Num a, Num b, Num c, Num d]
       \<and> \<bar>a - 10\<bar> \<le> 10 / 2 ^ 24 \<and> \<bar>b - 0\<bar> \<le> 0
       \<and> \<bar>c - 10\<bar> \<le> 30 / 2 ^ 24 \<and> \<bar>d - 10\<bar> \<le> 10 / 2 ^ 24"
  proof (intro exI conjI)
    show "scale_back (stored skewed ?uv) 20 10 = [Num a, Num b, Num c, Num d]"
      using s by (simp only: uv)
    show "\<bar>a - 10\<bar> \<le> 10 / 2 ^ 24" using b(1) by simp
    show "\<bar>b - 0\<bar> \<le> 0" using b(2) by simp
    show "\<bar>c - 10\<bar> \<le> 30 / 2 ^ 24" using b(3) by simp
    show "\<bar>d - 10\<bar> \<le> 10 / 2 ^ 24" using b(4) by simp
  qed
  have exact: "scale_back ?uv 20 10 = [Num 10, Num 0, Num 10, Num 10]"
    using e by (simp add: uv)
  have ran: "\<exists>atlas' hp'.
         addUVs webgl_env [region_b] ?t ''b.png'' 20 10 = Inr (Some ?uv, atlas', hp')"
    using r by (simp only: uv) blast
  from g tg d o wd ht ran exact rounded show ?thesis by (intro conjI)
qed

subsection \<open>Numbers as strings\<close>

lemma digit_value_nth: "d < 10 \<Longrightarrow> digit_value (''0123456789'' ! d) = Some d"
proof -
  assume "d < 10"
  then have "d \<in> {0, 1, 2, 3, 4, 5, 6, 7, 8, 9}" by auto
  then show ?thesis by (auto simp: digit_value_def)
qed

lemma parse_digits_snoc:
  "parse_digits (xs @ [c]) acc =
     (case parse_digits xs acc of
        None \<Rightarrow> None
      | Some a \<Rightarrow> (case digit_value c of None \<Rightarrow> None | Some d \<Rightarrow> Some (10 * a + d)))"
  by (induction xs arbitrary: acc) (auto split: option.splits)

text \<open>Reading back the decimal digits of a number gives the number.\<close>

lemma parse_digits_digits: "parse_digits (digits n) 0 = Some n"
proof (induction n rule: digits.induct)
  case (1 n)
  show ?case
  proof (cases "n < 10")
    case True
    have d: "digits n = [''0123456789'' ! n]"
      by (subst digits.simps) (simp only: True if_True)
    have "parse_digits [''0123456789'' ! n] 0 = Some (10 * 0 + n)"
      by (simp only: parse_digits.simps digit_value_nth [OF True] option.case)
    then show ?thesis by (simp only: d) simp
  next
    case False
    have m: "n mod 10 < 10" by simp
    have d: "digits n = digits (n div 10) @ [''0123456789'' ! (n mod 10)]"
      by (subst digits.simps) (simp only: False if_False)
    from False have ih: "parse_digits (digits (n div 10)) 0 = Some (n div 10)"
      by (rule 1)
    have "parse_digits (digits n) 0 = Some (10 * (n div 10) + n mod 10)"
      by (simp only: d parse_digits_snoc ih digit_value_nth [OF m] option.case)
    then show ?thesis by simp
  qed
qed

lemma digits_inj: "digits a = digits b \<Longrightarrow> a = b"
proof -
  assume "digits a = digits b"
  then have "parse_digits (digits a) 0 = parse_digits (digits b) 0"
    by (rule arg_cong)
  then have "Some a = Some b"
    unfolding parse_digits_digits .
  then show "a = b" by (rule option.inject [THEN iffD1])
qed

lemma parse_digits_chars:
  "parse_digits xs acc = Some m \<Longrightarrow> c \<in> set xs \<Longrightarrow> digit_value c \<noteq> None"
  by (induction xs arbitrary: acc) (auto split: option.splits)

lemma digits_no_comma: "CHR '','' \<notin> set (digits n)"
proof
  assume "CHR '','' \<in> set (digits n)"
  from parse_digits_chars [OF parse_digits_digits this] show False
    by (simp add: digit_value_def)
qed

lemma digits_not_proto: "digits n \<noteq> ''__proto__''"
proof
  assume a: "digits n = ''__proto__''"
  have "CHR ''_'' \<in> set (digits n)" by (simp add: a)
  from parse_digits_chars [OF parse_digits_digits this] show False
    by (simp add: digit_value_def)
qed

lemma digits_not_key: "digits n \<noteq> coordinate_key reg w h"
  using digits_no_comma [of n] coordinate_key_comma [of reg w h] by auto

lemma int_to_string_nat: "int_to_string (int k) = digits k"
  by (simp add: int_to_string_def)

subsection \<open>parseFromSpriteSheet\<close>

lemma with_key_digits:
  "own (with_key e atlas (digits j) reg w h r) (digits i) =
     (if i = j then Some r else own atlas (digits i))"
  "proto (with_key e atlas (digits j) reg w h r) = proto atlas"
  using digits_not_proto [of j] coordinate_key_not_proto [of reg w h]
    digits_not_key [of i reg w h] digits_inj [of i j]
  by (auto simp: with_key_def table_set_def)

lemma sheet_frames_regions:
  "distinct ks \<Longrightarrow>
   \<exists>atlas'. sheet_frames e data sc w h ks atlas hp =
      Inr (atlas', hp @ map (\<lambda>k. with_uvs e (sheet_region data sc (int k)) w h) ks)
    \<and> (\<forall>i < length ks. own atlas' (digits (ks ! i)) = Some (length hp + i))
    \<and> (\<forall>j. j \<notin> set ks \<longrightarrow> own atlas' (digits j) = own atlas (digits j))
    \<and> proto atlas' = proto atlas"
proof (induction ks arbitrary: atlas hp)
  case Nil
  show ?case by simp
next
  case (Cons k ks)
  let ?reg = "sheet_region data sc (int k)"
  let ?mk = "\<lambda>k. with_uvs e (sheet_region data sc (int k)) w h"
  let ?atlas1 = "with_key e atlas (digits k) ?reg w h (length hp)"
  let ?hp1 = "hp @ [with_uvs e ?reg w h]"
  from Cons.prems have dk: "distinct ks" and nk: "k \<notin> set ks" by simp_all
  have step: "addUVs e (hp @ [?reg]) (table_set atlas (digits k) (length hp)) (digits k) w h
                = Inr (if gl e then Some (compute_uvs ?reg w h) else uvs ?reg, ?atlas1, ?hp1)"
    by (simp add: addUVs_fresh with_uvs_def)
  from Cons.IH [OF dk, of ?atlas1 ?hp1] obtain atlas' where
    run: "sheet_frames e data sc w h ks ?atlas1 ?hp1 = Inr (atlas', ?hp1 @ map ?mk ks)"
    and idx: "\<forall>i < length ks. own atlas' (digits (ks ! i)) = Some (length ?hp1 + i)"
    and oth: "\<forall>j. j \<notin> set ks \<longrightarrow> own atlas' (digits j) = own ?atlas1 (digits j)"
    and pr: "proto atlas' = proto ?atlas1"
    by blast
  have r: "sheet_frames e data sc w h (k # ks) atlas hp = Inr (atlas', hp @ map ?mk (k # ks))"
    using step run by (simp add: int_to_string_nat)
  have i: "\<forall>i < length (k # ks). own atlas' (digits ((k # ks) ! i)) = Some (length hp + i)"
  proof (intro allI impI)
    fix i assume "i < length (k # ks)"
    show "own atlas' (digits ((k # ks) ! i)) = Some (length hp + i)"
    proof (cases i)
      case 0
      with oth nk show ?thesis by (simp add: with_key_digits)
    next
      case (Suc i')
      with \<open>i < length (k # ks)\<close> idx show ?thesis by simp
    qed
  qed
  have o: "\<forall>j. j \<notin> set (k # ks) \<longrightarrow> own atlas' (digits j) = own atlas (digits j)"
    using oth by (simp add: with_key_digits)
  have p: "proto atlas' = proto atlas"
    using pr by (simp add: with_key_digits)
  from r i o p show ?case by blast
qed

text \<open>
  What \<open>parseFromSpriteSheet\<close> does, given the sprite count and the effective size: the
  regions of the cells are allocated in order, each under its number, and the warning
  is printed when the size was replaced.
\<close>

lemma parseFromSpriteSheet_run:
  assumes "sheet_image data = Some img"
    and "sprite_count data img = (cx, cy)"
    and "effective_size data img = (ew, eh, warned)"
  shows "\<exists>atlas.
           parseFromSpriteSheet e wd data =
             Inr (atlas,
                  wd\<lparr>console := console wd @ (if warned then [truncation_warning data img ew eh]
                                                else []),
                     heap := heap wd @ map (\<lambda>k. with_uvs e (sheet_region data (cx, cy) (int k)) ew eh)
                                           [0 ..< nat (cx * cy)]\<rparr>)
         \<and> (\<forall>k < nat (cx * cy). \<forall>hp.
               table_get hp atlas (int_to_string (int k)) = Prop_region (length (heap wd) + k))"
proof -
  let ?mk = "\<lambda>k. with_uvs e (sheet_region data (cx, cy) (int k)) ew eh"
  let ?ks = "[0 ..< nat (cx * cy)]"
  let ?wd1 = "if warned then wd\<lparr>console := console wd @ [truncation_warning data img ew eh]\<rparr>
              else wd"
  have hw: "heap ?wd1 = heap wd" by simp
  from sheet_frames_regions [of ?ks e data "(cx, cy)" ew eh empty_table "heap wd"]
  obtain atlas where
    fr: "sheet_frames e data (cx, cy) ew eh ?ks empty_table (heap wd) =
           Inr (atlas, heap wd @ map ?mk ?ks)"
    and idx: "\<forall>i < length ?ks. own atlas (digits (?ks ! i)) = Some (length (heap wd) + i)"
    by auto
  have run: "parseFromSpriteSheet e wd data =
             Inr (atlas,
                  wd\<lparr>console := console wd @ (if warned then [truncation_warning data img ew eh]
                                                else []),
                     heap := heap wd @ map ?mk ?ks\<rparr>)"
    using fr by (simp add: parseFromSpriteSheet_def assms)
  have keys: "\<forall>k < nat (cx * cy). \<forall>hp.
               table_get hp atlas (int_to_string (int k)) = Prop_region (length (heap wd) + k)"
  proof (intro allI impI)
    fix k hp assume k: "k < nat (cx * cy)"
    with idx have "own atlas (digits k) = Some (length (heap wd) + k)" by simp
    then show "table_get hp atlas (int_to_string (int k)) = Prop_region (length (heap wd) + k)"
      using digits_not_proto [of k] by (simp add: int_to_string_nat table_get_own)
  qed
  from run keys show ?thesis by blast
qed

lemma to_int32_id: "- (2 ^ 31) \<le> n \<Longrightarrow> n < 2 ^ 31 \<Longrightarrow> to_int32 n = n"
  by (simp add: to_int32_def)

lemma js_trunc_div_nonneg:
  assumes "0 \<le> a" and "0 < b" and "a div b < 2 ^ 31"
  shows "js_trunc_div a b = a div b"
proof -
  have q: "0 \<le> a div b"
    using assms by (simp add: pos_imp_zdiv_nonneg_iff)
  have "sgn a * sgn b * (\<bar>a\<bar> div \<bar>b\<bar>) = a div b"
    using assms by (cases "a = 0") (simp_all add: sgn_if)
  moreover have "to_int32 (a div b) = a div b"
    using q assms(3) by (intro to_int32_id) simp_all
  ultimately show ?thesis using assms(2) by (simp add: js_trunc_div_def)
qed

lemma js_rem_nonneg: "0 \<le> a \<Longrightarrow> 0 < b \<Longrightarrow> js_rem a b = Some (a mod b)"
  by (cases "a = 0") (simp_all add: js_rem_def sgn_if)

lemma div_mult_le_int: "0 < (c::int) \<Longrightarrow> (a div c) * c \<le> a"
  using div_mult_mod_eq [of a c] pos_mod_sign [of c a] by linarith

lemma less_div_mult_int: "0 < (c::int) \<Longrightarrow> a < (a div c) * c + c"
  using div_mult_mod_eq [of a c] pos_mod_bound [of c a] by linarith

lemma div_less_of_less_mult:
  assumes "0 < (c::int)" and "k < c * d"
  shows "k div c < d"
proof (rule ccontr)
  assume "\<not> k div c < d"
  then have "d \<le> k div c" by simp
  with assms(1) have "c * d \<le> c * (k div c)" by (simp add: mult_left_mono)
  also have "\<dots> \<le> k" using div_mult_le_int [OF assms(1), of k] by (simp add: mult.commute)
  finally show False using assms(2) by simp
qed

lemma div_le_self_int: "0 \<le> (a::int) \<Longrightarrow> 0 < b \<Longrightarrow> a div b \<le> a"
  using zdiv_mono2 [of a 1 b] by simp

text \<open>
  When the computed width does not exceed the image's, the cell count is the number of
  whole strides in the image width.
\<close>

lemma count_is_floor:
  assumes "0 < (s::int)" and "W \<le> a" and "c = a div s" and "c * s \<le> W"
  shows "c = W div s"
proof (rule antisym)
  have "(c * s) div s \<le> W div s"
    using assms(1,4) by (intro zdiv_mono1) simp_all
  then show "c \<le> W div s" using assms(1) by simp
  show "W div s \<le> c"
    unfolding assms(3) using assms(1,2) by (intro zdiv_mono1) simp_all
qed

text \<open>The cell of number \<open>k\<close> in a grid of \<open>cx\<close> by \<open>cy\<close> cells lies inside the grid.\<close>

lemma sheet_region_inside:
  assumes sw: "sw = framewidth data + spacing_of data"
    and sh: "sh = frameheight data + spacing_of data"
    and pos: "0 < framewidth data" "0 < frameheight data"
    and mg: "0 \<le> margin_of data" "margin_of data \<le> spacing_of data"
    and c: "0 \<le> cx" "0 \<le> cy" "cy < 2 ^ 31"
    and k: "int k < cx * cy"
  shows "\<exists>x y. offset (sheet_region data (cx, cy) (int k)) = (Num x, Num y)
           \<and> 0 \<le> x \<and> x + framewidth data \<le> cx * sw
           \<and> 0 \<le> y \<and> y + frameheight data \<le> cy * sh"
proof -
  have cxpos: "0 < cx"
  proof (rule ccontr)
    assume "\<not> 0 < cx"
    with c(1) have "cx = 0" by simp
    with k show False by simp
  qed
  have swpos: "0 < sw" "0 < sh" using sw sh pos mg by simp_all
  let ?col = "int k mod cx" and ?row = "int k div cx"
  have col: "0 \<le> ?col" "?col \<le> cx - 1"
    using cxpos pos_mod_bound [of cx "int k"] by simp_all
  have row: "0 \<le> ?row" "?row \<le> cy - 1"
    using cxpos div_less_of_less_mult [OF cxpos k] by (simp_all add: pos_imp_zdiv_nonneg_iff)
  have r: "js_rem (int k) cx = Some ?col"
    using cxpos by (simp add: js_rem_nonneg)
  have d: "js_trunc_div (int k) cx = ?row"
    using cxpos row c(3) by (intro js_trunc_div_nonneg) simp_all
  let ?x = "margin_of data + (spacing_of data + framewidth data) * ?col"
  let ?y = "margin_of data + (spacing_of data + frameheight data) * ?row"
  have off: "offset (sheet_region data (cx, cy) (int k)) = (Num ?x, Num ?y)"
    by (simp add: sheet_region_def r d)
  have "sw * ?col \<le> sw * (cx - 1)"
    using swpos col by (intro mult_left_mono) simp_all
  then have x2: "?x + framewidth data \<le> cx * sw"
    using mg sw by (simp add: algebra_simps)
  have "sh * ?row \<le> sh * (cy - 1)"
    using swpos row by (intro mult_left_mono) simp_all
  then have y2: "?y + frameheight data \<le> cy * sh"
    using mg sh by (simp add: algebra_simps)
  have "0 \<le> (spacing_of data + framewidth data) * ?col"
    using swpos sw col by (intro mult_nonneg_nonneg) simp_all
  then have x1: "0 \<le> ?x" using mg by simp
  have "0 \<le> (spacing_of data + frameheight data) * ?row"
    using swpos sh row by (intro mult_nonneg_nonneg) simp_all
  then have y1: "0 \<le> ?y" using mg by simp
  from off x1 x2 y1 y2 show ?thesis by blast
qed

text \<open>
  C1, as stated, fails. On a 34 by 34 image with 16 by 16 cells and spacing 2 the width
  is not a multiple of the stride 18 (the remainder is 16), yet the computed width 36
  exceeds the image's by exactly the spacing: the effective size stays 34 by 34, no
  warning is printed, and 4 regions are created where
  \<open>floor(34 / 18) * floor(34 / 18)\<close> is 1. On a 32 by 40 image with 16 by 16 cells and
  no spacing the height is not a multiple of 16, yet the computed width equals the
  image's: the size stays 32 by 40 and no warning is printed. On a 40 by 40 image with
  16 by 16 cells, no spacing and margin 5 the size is truncated to 32 by 32 with a
  warning, and the last cell, at \<open>(21, 21)\<close>, ends at 37, beyond the truncated area. On a
  35 by 35 image with 16 by 16 cells and spacing 2 the size is replaced, with the
  warning, by 36 by 36, which is larger than the image.
\<close>

theorem spritesheet_not_truncated:
  "js_rem 34 (16 + 2) = Some 16
   \<and> effective_size grid_34 \<lparr>img_src = ''grid.png'', img_width = 34, img_height = 34\<rparr>
       = (34, 34, False)
   \<and> \<not> isl (parseFromSpriteSheet webgl_env empty_world grid_34)
   \<and> console (snd (projr (parseFromSpriteSheet webgl_env empty_world grid_34))) = []
   \<and> length (heap (snd (projr (parseFromSpriteSheet webgl_env empty_world grid_34)))) = 4
   \<and> (34 div (16 + 2)) * (34 div (16 + 2)) = (1 :: int)
   \<and> js_rem 40 16 = Some 8
   \<and> effective_size grid_32x40 \<lparr>img_src = ''grid.png'', img_width = 32, img_height = 40\<rparr>
       = (32, 40, False)
   \<and> console (snd (projr (parseFromSpriteSheet webgl_env empty_world grid_32x40))) = []
   \<and> console (snd (projr (parseFromSpriteSheet webgl_env empty_world grid_40))) =
       [Warn (''Spritesheet Texture for image: grid.png is not divisible by 16x16, ''
              @ ''truncating effective size to 32x32'')]
   \<and> offset (heap (snd (projr (parseFromSpriteSheet webgl_env empty_world grid_40))) ! 3)
       = (Num 21, Num 21)
   \<and> uvs (heap (snd (projr (parseFromSpriteSheet webgl_env empty_world grid_40))) ! 3)
       = Some [Num (21 / 32), Num (21 / 32), Num (37 / 32), Num (37 / 32)]
   \<and> effective_size grid_35 \<lparr>img_src = ''grid.png'', img_width = 35, img_height = 35\<rparr>
       = (36, 36, True)
   \<and> console (snd (projr (parseFromSpriteSheet webgl_env empty_world grid_35))) =
       [Warn (''Spritesheet Texture for image: grid.png is not divisible by 18x18, ''
              @ ''truncating effective size to 36x36'')]"
  by code_simp

text \<open>
  C1, amended: for every fixed-grid spritesheet with positive cell size, a margin between
  0 and the spacing, and image dimensions that with the spacing stay below \<open>2^31\<close>: let
  the stride be the cell size plus the spacing (\<open>sw\<close>, \<open>sh\<close>) and the cell counts be
  \<open>cx = floor((width - margin + spacing) / sw)\<close> and \<open>cy\<close> likewise. When the image width
  or height is not a multiple of the stride, neither \<open>cx * sw - width\<close> nor
  \<open>cy * sh - height\<close> equals the spacing, and \<open>cx * sw\<close> and \<open>cy * sh\<close> do not exceed the
  width and the height, then \<open>cx\<close> and \<open>cy\<close> are the numbers of whole strides in the
  width and the height, and \<open>parseFromSpriteSheet\<close> succeeds, prints the one warning, and
  uses as effective size \<open>cx * sw\<close> by \<open>cy * sh\<close>, the largest whole-cell-aligned rectangle
  in the image; the number of regions created is
  \<open>floor(cx * sw / sw) * floor(cy * sh / sh)\<close>; the region of cell \<open>k\<close> is in the dictionary
  under the name \<open>k\<close>; every region has the cell size, lies inside the effective area, and
  under WebGL has the uvs computed against the effective size. When \<open>cx * sw - width\<close> or
  \<open>cy * sh - height\<close> equals the spacing, \<open>parseFromSpriteSheet\<close> succeeds and prints
  nothing, creates \<open>cx * cy\<close> regions, each in the dictionary under its number, and
  computes their uvs against the size of the image.
\<close>

theorem spritesheet_truncation:
  assumes img: "sheet_image data = Some img"
    and sw: "sw = framewidth data + spacing_of data"
    and sh: "sh = frameheight data + spacing_of data"
    and cx: "cx = (img_width img - margin_of data + spacing_of data) div sw"
    and cy: "cy = (img_height img - margin_of data + spacing_of data) div sh"
    and pos: "0 < framewidth data" "0 < frameheight data"
    and mg: "0 \<le> margin_of data" "margin_of data \<le> spacing_of data"
    and w: "0 \<le> img_width img" "img_width img + spacing_of data < 2 ^ 31"
    and h: "0 \<le> img_height img" "img_height img + spacing_of data < 2 ^ 31"
  shows "((img_width img mod sw \<noteq> 0 \<or> img_height img mod sh \<noteq> 0)
          \<and> cx * sw - img_width img \<noteq> spacing_of data
          \<and> cy * sh - img_height img \<noteq> spacing_of data
          \<and> cx * sw \<le> img_width img \<and> cy * sh \<le> img_height img \<longrightarrow>
            cx = img_width img div sw \<and> cy = img_height img div sh
          \<and> (\<exists>atlas created.
                 parseFromSpriteSheet e wd data =
                   Inr (atlas,
                        wd\<lparr>console := console wd
                                         @ [truncation_warning data img (cx * sw) (cy * sh)],
                           heap := heap wd @ created\<rparr>)
               \<and> int (length created) = ((cx * sw) div sw) * ((cy * sh) div sh)
               \<and> (\<forall>k < length created.
                     table_get (heap wd @ created) atlas (int_to_string (int k)) =
                       Prop_region (length (heap wd) + k))
               \<and> (\<forall>r \<in> set created. \<exists>x y.
                     offset r = (Num x, Num y)
                   \<and> width r = Num (framewidth data) \<and> height r = Num (frameheight data)
                   \<and> 0 \<le> x \<and> x + framewidth data \<le> cx * sw
                   \<and> 0 \<le> y \<and> y + frameheight data \<le> cy * sh
                   \<and> uvs r = (if gl e then Some (compute_uvs r (cx * sw) (cy * sh))
                              else None))))
       \<and> (cx * sw - img_width img = spacing_of data
          \<or> cy * sh - img_height img = spacing_of data \<longrightarrow>
            (\<exists>atlas created.
                 parseFromSpriteSheet e wd data = Inr (atlas, wd\<lparr>heap := heap wd @ created\<rparr>)
               \<and> int (length created) = cx * cy
               \<and> (\<forall>k < length created.
                     table_get (heap wd @ created) atlas (int_to_string (int k)) =
                       Prop_region (length (heap wd) + k))
               \<and> (\<forall>r \<in> set created.
                     width r = Num (framewidth data) \<and> height r = Num (frameheight data)
                   \<and> uvs r = (if gl e
                              then Some (compute_uvs r (img_width img) (img_height img))
                              else None))))"
proof -
  let ?W = "img_width img" and ?H = "img_height img"
  let ?a = "?W - margin_of data + spacing_of data"
  let ?b = "?H - margin_of data + spacing_of data"
  have swpos: "0 < sw" "0 < sh" using sw sh pos mg by simp_all
  have a: "0 \<le> ?a" "?a < 2 ^ 31" and b: "0 \<le> ?b" "?b < 2 ^ 31"
    using mg w h by simp_all
  have cxb: "0 \<le> cx" "cx < 2 ^ 31"
    using cx swpos a div_le_self_int [of ?a sw] by (simp_all add: pos_imp_zdiv_nonneg_iff)
  have cyb: "0 \<le> cy" "cy < 2 ^ 31"
    using cy swpos b div_le_self_int [of ?b sh] by (simp_all add: pos_imp_zdiv_nonneg_iff)
  have sc: "sprite_count data img = (cx, cy)"
    using js_trunc_div_nonneg [of ?a sw] js_trunc_div_nonneg [of ?b sh] a b swpos cxb cyb
    by (simp add: sprite_count_def sw [symmetric] sh [symmetric] cx [symmetric] cy [symmetric])
  have rw: "js_rem ?W sw = Some (?W mod sw)" and rh: "js_rem ?H sh = Some (?H mod sh)"
    using w h swpos by (simp_all add: js_rem_nonneg)
  have nn: "0 \<le> cx * cy" using cxb cyb by simp
  have first: "cx = ?W div sw \<and> cy = ?H div sh
          \<and> (\<exists>atlas created.
                 parseFromSpriteSheet e wd data =
                   Inr (atlas,
                        wd\<lparr>console := console wd
                                         @ [truncation_warning data img (cx * sw) (cy * sh)],
                           heap := heap wd @ created\<rparr>)
               \<and> int (length created) = ((cx * sw) div sw) * ((cy * sh) div sh)
               \<and> (\<forall>k < length created.
                     table_get (heap wd @ created) atlas (int_to_string (int k)) =
                       Prop_region (length (heap wd) + k))
               \<and> (\<forall>r \<in> set created. \<exists>x y.
                     offset r = (Num x, Num y)
                   \<and> width r = Num (framewidth data) \<and> height r = Num (frameheight data)
                   \<and> 0 \<le> x \<and> x + framewidth data \<le> cx * sw
                   \<and> 0 \<le> y \<and> y + frameheight data \<le> cy * sh
                   \<and> uvs r = (if gl e then Some (compute_uvs r (cx * sw) (cy * sh))
                              else None)))"
    if t: "(?W mod sw \<noteq> 0 \<or> ?H mod sh \<noteq> 0)
          \<and> cx * sw - ?W \<noteq> spacing_of data \<and> cy * sh - ?H \<noteq> spacing_of data
          \<and> cx * sw \<le> ?W \<and> cy * sh \<le> ?H"
  proof -
    let ?mk = "\<lambda>k. with_uvs e (sheet_region data (cx, cy) (int k)) (cx * sw) (cy * sh)"
    let ?created = "map ?mk [0 ..< nat (cx * cy)]"
    have eff: "effective_size data img = (cx * sw, cy * sh, True)"
      using t rw rh by (simp add: effective_size_def sc sw [symmetric] sh [symmetric] Let_def)
    from parseFromSpriteSheet_run [OF img sc eff, of e wd] obtain atlas where
      run: "parseFromSpriteSheet e wd data =
               Inr (atlas, wd\<lparr>console := console wd
                                  @ [truncation_warning data img (cx * sw) (cy * sh)],
                              heap := heap wd @ ?created\<rparr>)"
      and keys: "\<forall>k < nat (cx * cy). \<forall>hp.
               table_get hp atlas (int_to_string (int k)) = Prop_region (length (heap wd) + k)"
      by auto
    have fl: "cx = ?W div sw" "cy = ?H div sh"
      using count_is_floor [OF swpos(1) _ cx, of ?W] count_is_floor [OF swpos(2) _ cy, of ?H]
        mg t by simp_all
    have count: "int (length ?created) = ((cx * sw) div sw) * ((cy * sh) div sh)"
      using nn swpos by simp
    have names: "\<forall>k < length ?created.
                     table_get (heap wd @ ?created) atlas (int_to_string (int k)) =
                       Prop_region (length (heap wd) + k)"
      using keys by simp
    have inside: "\<forall>r \<in> set ?created. \<exists>x y.
                 offset r = (Num x, Num y)
               \<and> width r = Num (framewidth data) \<and> height r = Num (frameheight data)
               \<and> 0 \<le> x \<and> x + framewidth data \<le> cx * sw
               \<and> 0 \<le> y \<and> y + frameheight data \<le> cy * sh
               \<and> uvs r = (if gl e then Some (compute_uvs r (cx * sw) (cy * sh)) else None)"
    proof
      fix r
      assume "r \<in> set ?created"
      then obtain k where k: "k < nat (cx * cy)" and r: "r = ?mk k" by auto
      from k have "int k < cx * cy" by simp
      from sheet_region_inside [OF sw sh pos mg cxb(1) cyb this]
      obtain x y where
        o: "offset (sheet_region data (cx, cy) (int k)) = (Num x, Num y)"
        and g: "0 \<le> x" "x + framewidth data \<le> cx * sw" "0 \<le> y" "y + frameheight data \<le> cy * sh"
        by blast
      have "offset r = (Num x, Num y)"
        using o r by (simp add: with_uvs_def)
      moreover have "width r = Num (framewidth data)" "height r = Num (frameheight data)"
        using r by (simp_all add: with_uvs_def sheet_region_def)
      moreover have "uvs r = (if gl e then Some (compute_uvs r (cx * sw) (cy * sh)) else None)"
        using r by (simp add: with_uvs_def compute_uvs_uvs_update) (simp add: sheet_region_def)
      ultimately show "\<exists>x y.
                 offset r = (Num x, Num y)
               \<and> width r = Num (framewidth data) \<and> height r = Num (frameheight data)
               \<and> 0 \<le> x \<and> x + framewidth data \<le> cx * sw
               \<and> 0 \<le> y \<and> y + frameheight data \<le> cy * sh
               \<and> uvs r = (if gl e then Some (compute_uvs r (cx * sw) (cy * sh)) else None)"
        using g by blast
    qed
    from fl run count names inside show ?thesis by blast
  qed
  have second: "\<exists>atlas created.
                 parseFromSpriteSheet e wd data = Inr (atlas, wd\<lparr>heap := heap wd @ created\<rparr>)
               \<and> int (length created) = cx * cy
               \<and> (\<forall>k < length created.
                     table_get (heap wd @ created) atlas (int_to_string (int k)) =
                       Prop_region (length (heap wd) + k))
               \<and> (\<forall>r \<in> set created.
                     width r = Num (framewidth data) \<and> height r = Num (frameheight data)
                   \<and> uvs r = (if gl e then Some (compute_uvs r ?W ?H) else None))"
    if t: "cx * sw - ?W = spacing_of data \<or> cy * sh - ?H = spacing_of data"
  proof -
    let ?mk = "\<lambda>k. with_uvs e (sheet_region data (cx, cy) (int k)) ?W ?H"
    let ?created = "map ?mk [0 ..< nat (cx * cy)]"
    have eff: "effective_size data img = (?W, ?H, False)"
      using t by (auto simp: effective_size_def sc sw [symmetric] sh [symmetric] Let_def)
    from parseFromSpriteSheet_run [OF img sc eff, of e wd] obtain atlas where
      run: "parseFromSpriteSheet e wd data = Inr (atlas, wd\<lparr>heap := heap wd @ ?created\<rparr>)"
      and keys: "\<forall>k < nat (cx * cy). \<forall>hp.
               table_get hp atlas (int_to_string (int k)) = Prop_region (length (heap wd) + k)"
      by auto
    have count: "int (length ?created) = cx * cy"
      using nn by simp
    have names: "\<forall>k < length ?created.
                     table_get (heap wd @ ?created) atlas (int_to_string (int k)) =
                       Prop_region (length (heap wd) + k)"
      using keys by simp
    have each: "\<forall>r \<in> set ?created.
                     width r = Num (framewidth data) \<and> height r = Num (frameheight data)
                   \<and> uvs r = (if gl e then Some (compute_uvs r ?W ?H) else None)"
    proof
      fix r
      assume "r \<in> set ?created"
      then obtain k where r: "r = ?mk k" by auto
      have "width r = Num (framewidth data)" "height r = Num (frameheight data)"
        using r by (simp_all add: with_uvs_def sheet_region_def)
      moreover have "uvs r = (if gl e then Some (compute_uvs r ?W ?H) else None)"
        using r by (simp add: with_uvs_def compute_uvs_uvs_update) (simp add: sheet_region_def)
      ultimately show "width r = Num (framewidth data) \<and> height r = Num (frameheight data)
                   \<and> uvs r = (if gl e then Some (compute_uvs r ?W ?H) else None)"
        by blast
    qed
    from run count names each show ?thesis by blast
  qed
  show ?thesis
    by (rule conjI; rule impI) (rule first, assumption, rule second, assumption)
qed

theorem spritesheet_truncation_witness:
  "sheet_image (grid_40\<lparr>margin := None\<rparr>) =
     Some \<lparr>img_src = ''grid.png'', img_width = 40, img_height = 40\<rparr>
   \<and> spacing_of (grid_40\<lparr>margin := None\<rparr>) = 0
   \<and> margin_of (grid_40\<lparr>margin := None\<rparr>) = 0
   \<and> (40 :: int) mod 16 = 8
   \<and> (40 :: int) div 16 = 2
   \<and> (\<exists>atlas created.
         parseFromSpriteSheet webgl_env empty_world (grid_40\<lparr>margin := None\<rparr>) =
           Inr (atlas,
                empty_world
                  \<lparr>console := [truncation_warning (grid_40\<lparr>margin := None\<rparr>)
                                 \<lparr>img_src = ''grid.png'', img_width = 40, img_height = 40\<rparr>
                                 32 32],
                   heap := created\<rparr>)
       \<and> length created = 4)
   \<and> sheet_image grid_34 = Some \<lparr>img_src = ''grid.png'', img_width = 34, img_height = 34\<rparr>
   \<and> spacing_of grid_34 = 2
   \<and> margin_of grid_34 = 0
   \<and> ((34 + 2) div (16 + 2)) * (16 + 2) - 34 = (2 :: int)
   \<and> (\<exists>atlas created.
         parseFromSpriteSheet webgl_env empty_world grid_34 =
           Inr (atlas, empty_world\<lparr>heap := created\<rparr>)
       \<and> length created = 4)"
proof -
  let ?d = "grid_40\<lparr>margin := None\<rparr>"
  let ?img = "\<lparr>img_src = ''grid.png'', img_width = 40, img_height = 40\<rparr>"
  let ?img34 = "\<lparr>img_src = ''grid.png'', img_width = 34, img_height = 34\<rparr>"
  have facts: "sheet_image ?d = Some ?img" "spacing_of ?d = 0" "margin_of ?d = 0"
    "framewidth ?d = 16" "frameheight ?d = 16"
    by (simp_all add: grid_40_def spacing_of_def margin_of_def)
  have facts34: "sheet_image grid_34 = Some ?img34" "spacing_of grid_34 = 2"
    "margin_of grid_34 = 0" "framewidth grid_34 = 16" "frameheight grid_34 = 16"
    by (simp_all add: grid_34_def spacing_of_def margin_of_def)
  have one: "\<exists>atlas created.
         parseFromSpriteSheet webgl_env empty_world ?d =
           Inr (atlas, empty_world\<lparr>console := [truncation_warning ?d ?img 32 32],
                                     heap := created\<rparr>)
       \<and> length created = 4"
  proof -
    have "((img_width ?img mod 16 \<noteq> 0 \<or> img_height ?img mod 16 \<noteq> 0)
          \<and> 2 * 16 - img_width ?img \<noteq> spacing_of ?d
          \<and> 2 * 16 - img_height ?img \<noteq> spacing_of ?d
          \<and> 2 * 16 \<le> img_width ?img \<and> 2 * 16 \<le> img_height ?img \<longrightarrow>
            2 = img_width ?img div 16 \<and> 2 = img_height ?img div 16
          \<and> (\<exists>atlas created.
                 parseFromSpriteSheet webgl_env empty_world ?d =
                   Inr (atlas,
                        empty_world\<lparr>console := console empty_world
                                         @ [truncation_warning ?d ?img (2 * 16) (2 * 16)],
                           heap := heap empty_world @ created\<rparr>)
               \<and> int (length created) = ((2 * 16) div 16) * ((2 * 16) div 16)
               \<and> (\<forall>k < length created.
                     table_get (heap empty_world @ created) atlas (int_to_string (int k)) =
                       Prop_region (length (heap empty_world) + k))
               \<and> (\<forall>r \<in> set created. \<exists>x y.
                     offset r = (Num x, Num y)
                   \<and> width r = Num (framewidth ?d) \<and> height r = Num (frameheight ?d)
                   \<and> 0 \<le> x \<and> x + framewidth ?d \<le> 2 * 16
                   \<and> 0 \<le> y \<and> y + frameheight ?d \<le> 2 * 16
                   \<and> uvs r = (if gl webgl_env then Some (compute_uvs r (2 * 16) (2 * 16))
                              else None))))
       \<and> (2 * 16 - img_width ?img = spacing_of ?d
          \<or> 2 * 16 - img_height ?img = spacing_of ?d \<longrightarrow>
            (\<exists>atlas created.
                 parseFromSpriteSheet webgl_env empty_world ?d =
                   Inr (atlas, empty_world\<lparr>heap := heap empty_world @ created\<rparr>)
               \<and> int (length created) = 2 * 2
               \<and> (\<forall>k < length created.
                     table_get (heap empty_world @ created) atlas (int_to_string (int k)) =
                       Prop_region (length (heap empty_world) + k))
               \<and> (\<forall>r \<in> set created.
                     width r = Num (framewidth ?d) \<and> height r = Num (frameheight ?d)
                   \<and> uvs r = (if gl webgl_env
                              then Some (compute_uvs r (img_width ?img) (img_height ?img))
                              else None))))"
      by (rule spritesheet_truncation [of ?d ?img 16 16 2 2 webgl_env empty_world])
         (simp_all add: facts)
    then have "\<exists>atlas created.
                 parseFromSpriteSheet webgl_env empty_world ?d =
                   Inr (atlas,
                        empty_world\<lparr>console := console empty_world
                                         @ [truncation_warning ?d ?img (2 * 16) (2 * 16)],
                           heap := heap empty_world @ created\<rparr>)
               \<and> int (length created) = ((2 * 16) div 16) * ((2 * 16) div 16)"
      by (simp add: facts) blast
    then obtain atlas created where
      "parseFromSpriteSheet webgl_env empty_world ?d =
                   Inr (atlas,
                        empty_world\<lparr>console := console empty_world
                                         @ [truncation_warning ?d ?img (2 * 16) (2 * 16)],
                           heap := heap empty_world @ created\<rparr>)"
      and "int (length created) = ((2 * 16) div 16) * ((2 * 16) div 16)"
      by blast
    then have "parseFromSpriteSheet webgl_env empty_world ?d =
           Inr (atlas, empty_world\<lparr>console := [truncation_warning ?d ?img 32 32],
                                     heap := created\<rparr>)
       \<and> length created = 4"
      by (simp add: empty_world_def)
    then show ?thesis by blast
  qed
  have two: "\<exists>atlas created.
         parseFromSpriteSheet webgl_env empty_world grid_34 =
           Inr (atlas, empty_world\<lparr>heap := created\<rparr>)
       \<and> length created = 4"
  proof -
    have "((img_width ?img34 mod 18 \<noteq> 0 \<or> img_height ?img34 mod 18 \<noteq> 0)
          \<and> 2 * 18 - img_width ?img34 \<noteq> spacing_of grid_34
          \<and> 2 * 18 - img_height ?img34 \<noteq> spacing_of grid_34
          \<and> 2 * 18 \<le> img_width ?img34 \<and> 2 * 18 \<le> img_height ?img34 \<longrightarrow>
            2 = img_width ?img34 div 18 \<and> 2 = img_height ?img34 div 18
          \<and> (\<exists>atlas created.
                 parseFromSpriteSheet webgl_env empty_world grid_34 =
                   Inr (atlas,
                        empty_world\<lparr>console := console empty_world
                                         @ [truncation_warning grid_34 ?img34 (2 * 18) (2 * 18)],
                           heap := heap empty_world @ created\<rparr>)
               \<and> int (length created) = ((2 * 18) div 18) * ((2 * 18) div 18)
               \<and> (\<forall>k < length created.
                     table_get (heap empty_world @ created) atlas (int_to_string (int k)) =
                       Prop_region (length (heap empty_world) + k))
               \<and> (\<forall>r \<in> set created. \<exists>x y.
                     offset r = (Num x, Num y)
                   \<and> width r = Num (framewidth grid_34) \<and> height r = Num (frameheight grid_34)
                   \<and> 0 \<le> x \<and> x + framewidth grid_34 \<le> 2 * 18
                   \<and> 0 \<le> y \<and> y + frameheight grid_34 \<le> 2 * 18
                   \<and> uvs r = (if gl webgl_env then Some (compute_uvs r (2 * 18) (2 * 18))
                              else None))))
       \<and> (2 * 18 - img_width ?img34 = spacing_of grid_34
          \<or> 2 * 18 - img_height ?img34 = spacing_of grid_34 \<longrightarrow>
            (\<exists>atlas created.
                 parseFromSpriteSheet webgl_env empty_world grid_34 =
                   Inr (atlas, empty_world\<lparr>heap := heap empty_world @ created\<rparr>)
               \<and> int (length created) = 2 * 2
               \<and> (\<forall>k < length created.
                     table_get (heap empty_world @ created) atlas (int_to_string (int k)) =
                       Prop_region (length (heap empty_world) + k))
               \<and> (\<forall>r \<in> set created.
                     width r = Num (framewidth grid_34) \<and> height r = Num (frameheight grid_34)
                   \<and> uvs r = (if gl webgl_env
                              then Some (compute_uvs r (img_width ?img34) (img_height ?img34))
                              else None))))"
      by (rule spritesheet_truncation [of grid_34 ?img34 18 18 2 2 webgl_env empty_world])
         (simp_all add: facts34)
    then have "\<exists>atlas created.
                 parseFromSpriteSheet webgl_env empty_world grid_34 =
                   Inr (atlas, empty_world\<lparr>heap := heap empty_world @ created\<rparr>)
               \<and> int (length created) = 2 * 2"
      by (simp add: facts34) blast
    then obtain atlas created where
      "parseFromSpriteSheet webgl_env empty_world grid_34 =
                   Inr (atlas, empty_world\<lparr>heap := heap empty_world @ created\<rparr>)"
      and "int (length created) = 2 * 2"
      by blast
    then have "parseFromSpriteSheet webgl_env empty_world grid_34 =
           Inr (atlas, empty_world\<lparr>heap := created\<rparr>)
       \<and> length created = 4"
      by (simp add: empty_world_def)
    then show ?thesis by blast
  qed
  have ar: "(40 :: int) mod 16 = 8" "(40 :: int) div 16 = 2"
    "((34 + 2) div (16 + 2)) * (16 + 2) - 34 = (2 :: int)"
    by simp_all
  from facts(1-3) ar(1,2) one facts34(1-3) ar(3) two show ?thesis
    by (intro conjI)
qed

end
